theory Spec2Isabelle
  imports Complex_Main "HOL-Library.Word" "HOL-Library.Sublist"
begin

section \<open>JavaScript strings\<close>

text \<open>
  A JavaScript string is a sequence of UTF-16 code units. String literals of the program
  that are plain ASCII are written with \<open>ascii\<close>; the emoji of the log messages are given by
  their code units.
\<close>

type_synonym code_unit = "16 word"
type_synonym jstring = "code_unit list"

definition ascii :: "string \<Rightarrow> jstring" where
  "ascii s = map of_char s"

text \<open>
  \<open>String.prototype.trim\<close> removes the ECMAScript WhiteSpace and LineTerminator code points
  from both ends: TAB, LF, VT, FF, CR, SP, NBSP, U+1680, U+2000 to U+200A, U+2028, U+2029,
  U+202F, U+205F, U+3000 and U+FEFF.
\<close>

definition isWhiteSpace :: "code_unit \<Rightarrow> bool" where
  "isWhiteSpace c \<longleftrightarrow>
     (0x09 \<le> c \<and> c \<le> 0x0D) \<or> c = 0x20 \<or> c = 0xA0 \<or> c = 0x1680 \<or>
     (0x2000 \<le> c \<and> c \<le> 0x200A) \<or> c = 0x2028 \<or> c = 0x2029 \<or> c = 0x202F \<or>
     c = 0x205F \<or> c = 0x3000 \<or> c = 0xFEFF"

definition trim :: "jstring \<Rightarrow> jstring" where
  "trim s = dropWhile isWhiteSpace (rev (dropWhile isWhiteSpace (rev s)))"

text \<open>
  \<open>String.prototype.toLowerCase\<close> uses the locale-independent Unicode lower-case mappings.
  \<open>A\<close> to \<open>Z\<close> go to \<open>a\<close> to \<open>z\<close>; outside ASCII, exactly two code points have a lower-case
  mapping that contains an ASCII letter: the Kelvin sign U+212A (to \<open>k\<close>) and the dotted
  capital I U+0130 (to \<open>i\<close> followed by the combining dot U+0307). Every other code unit
  outside ASCII is mapped to code units outside ASCII; they are left unchanged here, since
  each use of \<open>toLowerCase\<close> in the program is followed by the removal of every code unit
  that is not in \<open>a-z0-9\<close>.
\<close>

definition lowerUnit :: "code_unit \<Rightarrow> jstring" where
  "lowerUnit c =
     (if 0x41 \<le> c \<and> c \<le> 0x5A then [c + 0x20]
      else if c = 0x212A then [0x6B]
      else if c = 0x0130 then [0x69, 0x0307]
      else [c])"

definition toLowerCase :: "jstring \<Rightarrow> jstring" where
  "toLowerCase s = concat (map lowerUnit s)"

text \<open>The character class \<open>[a-z0-9]\<close> and \<open>.replace(/[^a-z0-9]/g, "")\<close>.\<close>

definition isLowerAlnum :: "code_unit \<Rightarrow> bool" where
  "isLowerAlnum c \<longleftrightarrow> (0x61 \<le> c \<and> c \<le> 0x7A) \<or> (0x30 \<le> c \<and> c \<le> 0x39)"

definition stripNonAlnum :: "jstring \<Rightarrow> jstring" where
  "stripNonAlnum s = filter isLowerAlnum s"

text \<open>
  \<open>header.trim().toLowerCase().replace(/[^a-z0-9]/g, "")\<close>, the chain written out twice in
  \<open>handleStartTraining\<close> (for each CSV header and for each key of each row).
\<close>

definition normalizedKey :: "jstring \<Rightarrow> jstring" where
  "normalizedKey header = stripNonAlnum (toLowerCase (trim header))"

section \<open>The alias table\<close>

text \<open>The object literal: its keys and values, which are ASCII text, in the order written.\<close>

definition NORMALIZED_COLUMN_MAP :: "(string \<times> string) list" where
  "NORMALIZED_COLUMN_MAP =
     [(''orbitalperioddays'', ''orbital_period_days''),
      (''planetradiusrearth'', ''planet_radius_rearth''),
      (''insolationfluxeflux'', ''insolation_flux_eflux''),
      (''equilibriumtempk'', ''equilibrium_temp_K''),
      (''stellarteffk'', ''stellar_teff_K''),
      (''stellarloggcgs'', ''stellar_logg_cgs''),
      (''stellarradiusrsun'', ''stellar_radius_rsun''),
      (''stellarmag'', ''stellar_mag''),
      (''radeg'', ''ra_deg''),
      (''decdeg'', ''dec_deg''),
      (''label'', ''label''),
      (''source'', ''source''),
      (''koiperiod'', ''orbital_period_days''),
      (''koiprad'', ''planet_radius_rearth''),
      (''koiinsol'', ''insolation_flux_eflux''),
      (''koiteq'', ''equilibrium_temp_K''),
      (''koisteff'', ''stellar_teff_K''),
      (''koislogg'', ''stellar_logg_cgs''),
      (''koisrad'', ''stellar_radius_rsun''),
      (''koikepmag'', ''stellar_mag''),
      (''koidisposition'', ''label''),
      (''plorbper'', ''orbital_period_days''),
      (''plrade'', ''planet_radius_rearth''),
      (''plinsol'', ''insolation_flux_eflux''),
      (''pleqt'', ''equilibrium_temp_K''),
      (''stteff'', ''stellar_teff_K''),
      (''stlogg'', ''stellar_logg_cgs''),
      (''strad'', ''stellar_radius_rsun''),
      (''sttmag'', ''stellar_mag''),
      (''syvmag'', ''stellar_mag''),
      (''tfopwgdisp'', ''label''),
      (''disposition'', ''label''),
      (''ra'', ''ra_deg''),
      (''dec'', ''dec_deg'')]"

text \<open>
  The value of \<open>NORMALIZED_COLUMN_MAP[normalizedKey]\<close>. The table is an object literal, so a
  key that is not an own property is looked up on \<open>Object.prototype\<close>. A normalized key
  consists of \<open>a-z0-9\<close> only, and the one property of \<open>Object.prototype\<close> with such a name is
  \<open>constructor\<close>, whose value is the function \<open>Object\<close>. Every other key gives \<open>undefined\<close>,
  which is \<open>None\<close> here. All values of the table are non-empty strings and a function is
  truthy, so the test \<open>if (dbKey)\<close> of the source is the test for \<open>Some\<close>.
\<close>

datatype db_key = Column jstring | ObjectFunction

definition columnLookup :: "jstring \<Rightarrow> db_key option" where
  "columnLookup k =
     (case map_of (map (\<lambda>(key, v). (ascii key, ascii v)) NORMALIZED_COLUMN_MAP) k of
        Some v \<Rightarrow> Some (Column v)
      | None \<Rightarrow> if k = ascii ''constructor'' then Some ObjectFunction else None)"

text \<open>
  A value used as a property name (\<open>mappedRow[dbKey]\<close>) is converted to a string. For the
  function \<open>Object\<close> that is its source text, as V8 prints it.
\<close>

definition propertyKey :: "db_key \<Rightarrow> jstring" where
  "propertyKey d =
     (case d of Column v \<Rightarrow> v | ObjectFunction \<Rightarrow> ascii ''function Object() { [native code] }'')"

text \<open>The header-normalization-and-lookup function: the first two lines of both loops.\<close>

definition headerLookup :: "jstring \<Rightarrow> db_key option" where
  "headerLookup header = columnLookup (normalizedKey header)"

text \<open>
  The case-folded alphanumeric character sequence of a header, in the words of the
  specification: the header in lower case with everything but letters and digits left out.
  No trimming takes part in it.
\<close>

definition foldedAlnum :: "jstring \<Rightarrow> jstring" where
  "foldedAlnum header = filter isLowerAlnum (toLowerCase header)"

section \<open>The Row Transformer\<close>

text \<open>
  The values a cell of a parsed row can hold (the rows are typed \<open>Record<string, any>\<close>).
  Numbers matter only through their truthiness, so an integer stands for a number other
  than \<open>NaN\<close>; an object is known by a reference.
\<close>

datatype jsvalue =
    JUndefined
  | JNull
  | JBool bool
  | JNumber int
  | JNaN
  | JString jstring
  | JObject nat

fun truthy :: "jsvalue \<Rightarrow> bool" where
  "truthy JUndefined = False"
| "truthy JNull = False"
| "truthy (JBool b) = b"
| "truthy (JNumber n) = (n \<noteq> 0)"
| "truthy JNaN = False"
| "truthy (JString s) = (s \<noteq> [])"
| "truthy (JObject r) = True"

text \<open>
  A raw row is the list of its keys with their values, in the order in which \<open>for ... in\<close>
  visits them. A mapped row is an object built by assignments: a map from property names
  to values.
\<close>

type_synonym raw_row = "(jstring \<times> jsvalue) list"
type_synonym mapped_row = "jstring \<rightharpoonup> jsvalue"

text \<open>\<open>typeof value === "string" && value.trim() === "" ? null : value\<close>\<close>

definition cellValue :: "jsvalue \<Rightarrow> jsvalue" where
  "cellValue v = (case v of JString s \<Rightarrow> if trim s = [] then JNull else v | _ \<Rightarrow> v)"

text \<open>The body of the loop \<open>for (const rawKey in row)\<close>, for one key.\<close>

definition mapColumn :: "jstring \<times> jsvalue \<Rightarrow> mapped_row \<Rightarrow> mapped_row" where
  "mapColumn kv mappedRow =
     (case columnLookup (normalizedKey (fst kv)) of
        Some dbKey \<Rightarrow> mappedRow(propertyKey dbKey \<mapsto> cellValue (snd kv))
      | None \<Rightarrow> mappedRow)"

fun mapColumns :: "raw_row \<Rightarrow> mapped_row \<Rightarrow> mapped_row" where
  "mapColumns [] mappedRow = mappedRow"
| "mapColumns (kv # rest) mappedRow = mapColumns rest (mapColumn kv mappedRow)"

text \<open>Reading a property: \<open>undefined\<close> when the object does not have it.\<close>

definition getProp :: "mapped_row \<Rightarrow> jstring \<Rightarrow> jsvalue" where
  "getProp obj k = (case obj k of Some v \<Rightarrow> v | None \<Rightarrow> JUndefined)"

text \<open>The function given to \<open>rawRows.map\<close>.\<close>

definition rowToInsert :: "raw_row \<Rightarrow> mapped_row" where
  "rowToInsert row =
     (let mappedRow = mapColumns row Map.empty
      in if \<not> truthy (getProp mappedRow (ascii ''source''))
         then mappedRow(ascii ''source'' \<mapsto> JString (ascii ''uploaded_csv''))
         else mappedRow)"

section \<open>The Preflight Validator\<close>

text \<open>
  The \<open>forEach\<close> over the CSV headers. \<open>mappedHeaders\<close> is a \<open>Set\<close>: a list without
  repetitions here, of which the program reads the size and the membership of one string.
\<close>

fun scanHeaders :: "jstring list \<Rightarrow> db_key list \<times> jstring list \<Rightarrow> db_key list \<times> jstring list" where
  "scanHeaders [] acc = acc"
| "scanHeaders (header # rest) (mappedHeaders, unmappedHeaders) =
     (if header = [] then scanHeaders rest (mappedHeaders, unmappedHeaders)
      else case columnLookup (normalizedKey header) of
             Some dbKey \<Rightarrow> scanHeaders rest (List.insert dbKey mappedHeaders, unmappedHeaders)
           | None \<Rightarrow> scanHeaders rest (mappedHeaders, unmappedHeaders @ [header]))"

text \<open>Template literals: a number prints in decimal, \<open>join\<close> puts the separator between.\<close>

fun showNat :: "nat \<Rightarrow> jstring" where
  "showNat n = (if n < 10 then [0x30 + of_nat n] else showNat (n div 10) @ [0x30 + of_nat (n mod 10)])"

declare showNat.simps [simp del]

fun join :: "jstring \<Rightarrow> jstring list \<Rightarrow> jstring" where
  "join sep [] = []"
| "join sep [x] = x"
| "join sep (x # y # ys) = x @ sep @ join sep (y # ys)"

section \<open>The component state and the world around the handler\<close>

text \<open>
  A thrown value: an \<open>Error\<close> with its message, or any other value with its conversion to a
  string.
\<close>

datatype thrown = ErrorObject jstring | OtherValue jstring

text \<open>How a block of statements ends: at its end, by \<open>return\<close>, or by a thrown value.\<close>

datatype completion = Normal | Return | Throw thrown

text \<open>The selected \<open>File\<close> and the \<open>metrics_json\<close> payload are known by a handle.\<close>

datatype csv_file = CsvFile nat
datatype metrics_json = MetricsJson nat

text \<open>
  The entries of the multipart form. The text of \<open>train_test_split\<close> is
  \<open>(trainTestSplit / 100).toString()\<close>, the shortest decimal that reads back as the
  quotient; for the integers of the slider that is the decimal expansion of the quotient
  itself, so the entry is kept as the number its text denotes.
\<close>

datatype form_value = FileEntry csv_file | TextEntry jstring | NumberText rat

type_synonym form_data = "(jstring \<times> form_value) list"

text \<open>The seven inputs that \<open>HyperparameterInput\<close> puts into the form, by name.\<close>

record hyper_form =
  cv_folds :: jstring
  rf_estimators :: jstring
  xgb_estimators :: jstring
  lgbm_estimators :: jstring
  xgb_max_depth :: jstring
  lgbm_max_depth :: jstring
  learning_rate :: jstring

text \<open>What \<open>Papa.parse\<close> returns, as far as the handler reads it.\<close>

record papa_result =
  parseErrors :: "jstring list"
  parseData :: "raw_row list"
  metaFields :: "jstring list option"

text \<open>
  The result of \<open>supabase.from(...).insert(rows)\<close>: it throws, or it returns an object whose
  \<open>error\<close> is \<open>null\<close> or has a message.
\<close>

datatype insert_result = InsertThrows thrown | InsertReturns "jstring option"

text \<open>
  The result of \<open>fetch\<close> and of \<open>response.json()\<close>. Of the JSON body the handler reads the
  field \<open>error\<close>, which is falsy or is truthy with a conversion to a string (itself, when
  it is a string), and the field \<open>metrics_json\<close>, which is falsy or a payload.
  \<open>BodyThrows\<close> is a body that cannot be read as JSON: \<open>response.json()\<close> throws.
  \<open>BodyNull\<close> is the body \<open>null\<close>: \<open>response.json()\<close> returns, and reading a field of
  the result throws, for each field name what is given.
\<close>

datatype error_field = ErrorFalsy | ErrorTruthy jstring
datatype body =
    BodyThrows thrown
  | BodyNull "jstring \<Rightarrow> thrown"
  | BodyJson error_field "metrics_json option"
datatype fetch_result = FetchThrows thrown | FetchResponse bool body

text \<open>
  Everything outside the component that one run of the handler reads: the clock (the
  text of \<open>toLocaleTimeString()\<close> at each call of \<open>appendStatus\<close>), the text of the file, the
  CSV parser, the two remote services and the inputs of the form.
\<close>

record env =
  clock :: "nat \<Rightarrow> jstring"
  fileText :: "thrown + jstring"
  papaParse :: "jstring \<Rightarrow> papa_result"
  supabaseInsert :: "mapped_row list \<Rightarrow> insert_result"
  fetchTrain :: "form_data \<Rightarrow> fetch_result"
  form :: hyper_form

text \<open>
  The network operations performed and the updates made to the status log, in order.
  They are not state of the component: they record what a run did.
\<close>

datatype net_op = SupabaseInsert "mapped_row list" | TrainPost form_data
datatype status_op = Clear | Append jstring

record app_state =
  trainTestSplit :: int
  trainingStatus :: "jstring list"
  isTraining :: bool
  selectedFile :: "csv_file option"
  metricsJson :: "metrics_json option"
  ticks :: nat
  statusOps :: "status_op list"
  network :: "net_op list"

definition statusEntry :: "jstring \<Rightarrow> jstring \<Rightarrow> jstring" where
  "statusEntry timestamp message = ascii ''['' @ timestamp @ ascii ''] '' @ message"

definition appendStatus :: "env \<Rightarrow> jstring \<Rightarrow> app_state \<Rightarrow> app_state" where
  "appendStatus e message s =
     (let timestamp = clock e (ticks s)
      in s\<lparr>trainingStatus := trainingStatus s @ [statusEntry timestamp message],
           ticks := Suc (ticks s),
           statusOps := statusOps s @ [Append (statusEntry timestamp message)]\<rparr>)"

definition setTrainingStatusEmpty :: "app_state \<Rightarrow> app_state" where
  "setTrainingStatusEmpty s = s\<lparr>trainingStatus := [], statusOps := statusOps s @ [Clear]\<rparr>"

definition setIsTraining :: "bool \<Rightarrow> app_state \<Rightarrow> app_state" where
  "setIsTraining b s = s\<lparr>isTraining := b\<rparr>"

definition setMetricsJson :: "metrics_json option \<Rightarrow> app_state \<Rightarrow> app_state" where
  "setMetricsJson m s = s\<lparr>metricsJson := m\<rparr>"

definition perform :: "net_op \<Rightarrow> app_state \<Rightarrow> app_state" where
  "perform op s = s\<lparr>network := network s @ [op]\<rparr>"

text \<open>\<open>try\<close> with \<open>catch\<close>, and \<open>finally\<close> with a block that ends normally.\<close>

definition tryCatch ::
  "('s \<Rightarrow> 's \<times> completion) \<Rightarrow> (thrown \<Rightarrow> 's \<Rightarrow> 's \<times> completion) \<Rightarrow> 's \<Rightarrow> 's \<times> completion" where
  "tryCatch block handler s =
     (case block s of (s1, Throw err) \<Rightarrow> handler err s1 | (s1, c) \<Rightarrow> (s1, c))"

definition tryFinally :: "('s \<Rightarrow> 's \<times> completion) \<Rightarrow> ('s \<Rightarrow> 's) \<Rightarrow> 's \<Rightarrow> 's \<times> completion" where
  "tryFinally block finalizer s = (case block s of (s1, c) \<Rightarrow> (finalizer s1, c))"

section \<open>The Upload Orchestrator\<close>

definition criticalError :: jstring where
  "criticalError = [0x274C] @ ascii
     '' CRITICAL ERROR: The CSV file does not contain a recognizable column for 'equilibrium_temp_K'.''"

definition criticalAdvice :: jstring where
  "criticalAdvice = ascii
     ''Please check the 'Unmapped columns' list above and ensure your file has a column like 'equilibrium_temp_k', 'koi_teq', or 'pl_eqt'.''"

text \<open>The pre-flight check of the headers, up to its \<open>return\<close> or its success message.\<close>

definition preflight :: "env \<Rightarrow> jstring list \<Rightarrow> app_state \<Rightarrow> app_state \<times> completion" where
  "preflight e csvHeaders s0 =
     (let s1 = appendStatus e (ascii ''Running pre-flight check on CSV headers...'') s0;
          scanned = scanHeaders csvHeaders ([], []);
          mappedHeaders = fst scanned;
          unmappedHeaders = snd scanned;
          s2 = appendStatus e
                 (ascii ''Found '' @ showNat (length csvHeaders) @ ascii '' columns. Mapped ''
                    @ showNat (length mappedHeaders) @ ascii ''.'') s1;
          s3 = (if unmappedHeaders \<noteq> []
                then appendStatus e
                       ([0x26A0, 0xFE0F] @ ascii '' Unmapped columns: [''
                          @ join (ascii '', '') unmappedHeaders @ ascii '']'') s2
                else s2)
      in if Column (ascii ''equilibrium_temp_K'') \<notin> set mappedHeaders
         then (setIsTraining False (appendStatus e criticalAdvice (appendStatus e criticalError s3)),
               Return)
         else (appendStatus e
                 ([0x2705] @ ascii '' Pre-flight check passed. All critical columns found.'') s3,
               Normal))"

text \<open>
  The transformation of the rows and the bulk insert. The call of the insert is recorded
  as a network operation when it is made, whatever its result.
\<close>

definition bulkInsert :: "env \<Rightarrow> raw_row list \<Rightarrow> app_state \<Rightarrow> app_state \<times> completion" where
  "bulkInsert e rawRows s0 =
     (let rowsToInsert = map rowToInsert rawRows;
          s1 = appendStatus e
                 (ascii ''Mapped '' @ showNat (length rowsToInsert)
                    @ ascii '' rows. Uploading to Supabase...'') s0;
          s2 = perform (SupabaseInsert rowsToInsert) s1
      in case supabaseInsert e rowsToInsert of
           InsertThrows err \<Rightarrow> (s2, Throw err)
         | InsertReturns (Some message) \<Rightarrow>
             (setIsTraining False
                (appendStatus e ([0x274C] @ ascii '' Supabase table insert error: '' @ message) s2),
              Return)
         | InsertReturns None \<Rightarrow>
             (appendStatus e ([0x2705] @ ascii '' Data uploaded to Supabase table.'') s2, Normal))"

text \<open>\<open>parsed.meta.fields || []\<close>\<close>

definition csvHeaders :: "papa_result \<Rightarrow> jstring list" where
  "csvHeaders parsed = (case metaFields parsed of Some names \<Rightarrow> names | None \<Rightarrow> [])"

text \<open>The first \<open>try\<close> block and its \<open>catch\<close>.\<close>

definition uploadBlock :: "env \<Rightarrow> app_state \<Rightarrow> app_state \<times> completion" where
  "uploadBlock e s0 =
     (let s1 = appendStatus e (ascii ''Parsing CSV file...'') s0
      in case fileText e of
           Inl err \<Rightarrow> (s1, Throw err)
         | Inr text \<Rightarrow>
             let parsed = papaParse e text
             in case parseErrors parsed of
                  message # _ \<Rightarrow>
                    (setIsTraining False
                       (appendStatus e ([0x274C] @ ascii '' CSV parse error: '' @ message) s1),
                     Return)
                | [] \<Rightarrow>
                    (case preflight e (csvHeaders parsed) s1 of
                       (s2, Normal) \<Rightarrow> bulkInsert e (parseData parsed) s2
                     | (s2, c) \<Rightarrow> (s2, c)))"

definition uploadCatch :: "env \<Rightarrow> thrown \<Rightarrow> app_state \<Rightarrow> app_state \<times> completion" where
  "uploadCatch e err s =
     (setIsTraining False
        (appendStatus e
           ([0x274C] @ ascii '' Supabase table upload error: ''
              @ (case err of ErrorObject message \<Rightarrow> message | OtherValue str \<Rightarrow> str)) s),
      Return)"

text \<open>The multipart form, built between the two \<open>try\<close> blocks.\<close>

definition buildFormData :: "csv_file \<Rightarrow> int \<Rightarrow> hyper_form \<Rightarrow> form_data" where
  "buildFormData f split inputs =
     [(ascii ''file'', FileEntry f),
      (ascii ''train_test_split'', NumberText (of_int split / 100)),
      (ascii ''cv_folds'', TextEntry (cv_folds inputs)),
      (ascii ''rf_estimators'', TextEntry (rf_estimators inputs)),
      (ascii ''xgb_estimators'', TextEntry (xgb_estimators inputs)),
      (ascii ''lgbm_estimators'', TextEntry (lgbm_estimators inputs)),
      (ascii ''xgb_max_depth'', TextEntry (xgb_max_depth inputs)),
      (ascii ''lgbm_max_depth'', TextEntry (lgbm_max_depth inputs)),
      (ascii ''learning_rate'', TextEntry (learning_rate inputs))]"

text \<open>\<open>data.error || "Unknown error occurred"\<close>, as the message of the \<open>Error\<close> made from it.\<close>

definition errorOrUnknown :: "error_field \<Rightarrow> jstring" where
  "errorOrUnknown errorField =
     (case errorField of
        ErrorTruthy message \<Rightarrow> message
      | ErrorFalsy \<Rightarrow> ascii ''Unknown error occurred'')"

text \<open>The second \<open>try\<close> block, its \<open>catch\<close> and its \<open>finally\<close>.\<close>

definition trainingBlock :: "env \<Rightarrow> form_data \<Rightarrow> app_state \<Rightarrow> app_state \<times> completion" where
  "trainingBlock e formData s0 =
     (let s1 = appendStatus e (ascii ''Uploading file and starting model training...'') s0;
          s2 = perform (TrainPost formData) s1
      in case fetchTrain e formData of
           FetchThrows err \<Rightarrow> (s2, Throw err)
         | FetchResponse ok (BodyThrows err) \<Rightarrow> (s2, Throw err)
         | FetchResponse ok (BodyNull readThrows) \<Rightarrow>
             if \<not> ok
             then (s2, Throw (readThrows (ascii ''error'')))
             else
               (appendStatus e
                  ([0x2705] @ ascii '' Training complete! New model saved successfully.'') s2,
                Throw (readThrows (ascii ''metrics_json'')))
         | FetchResponse ok (BodyJson errorField metrics) \<Rightarrow>
             if \<not> ok
             then (s2, Throw (ErrorObject (errorOrUnknown errorField)))
             else
               let s3 = appendStatus e
                          ([0x2705] @ ascii '' Training complete! New model saved successfully.'') s2
               in case metrics of
                    Some m \<Rightarrow>
                      (appendStatus e ([0xD83D, 0xDCCA] @ ascii '' Detailed metrics loaded.'')
                         (setMetricsJson (Some m) s3),
                       Normal)
                  | None \<Rightarrow> (s3, Normal))"

text \<open>\<open>error instanceof Error ? error.message : "Unknown error"\<close>\<close>

definition errorMessage :: "thrown \<Rightarrow> jstring" where
  "errorMessage err =
     (case err of ErrorObject message \<Rightarrow> message | OtherValue _ \<Rightarrow> ascii ''Unknown error'')"

definition trainingCatch :: "env \<Rightarrow> thrown \<Rightarrow> app_state \<Rightarrow> app_state \<times> completion" where
  "trainingCatch e err s =
     (if errorMessage err \<noteq> ascii ''Failed to fetch''
      then (appendStatus e ([0x274C] @ ascii '' Error: '' @ errorMessage err) s, Normal)
      else (s, Normal))"

definition trainingStage :: "env \<Rightarrow> form_data \<Rightarrow> app_state \<Rightarrow> app_state \<times> completion" where
  "trainingStage e formData =
     tryFinally (tryCatch (trainingBlock e formData) (trainingCatch e)) (setIsTraining False)"

text \<open>The submit handler of the form.\<close>

definition handleStartTraining :: "env \<Rightarrow> app_state \<Rightarrow> app_state \<times> completion" where
  "handleStartTraining e s =
     (case selectedFile s of
        None \<Rightarrow> (appendStatus e (ascii ''Error: Please select a file first'') s, Return)
      | Some f \<Rightarrow>
          let s1 = appendStatus e (ascii ''Starting training process...'')
                     (setMetricsJson None (setTrainingStatusEmpty (setIsTraining True s)))
          in case tryCatch (uploadBlock e) (uploadCatch e) s1 of
               (s2, Normal) \<Rightarrow> trainingStage e (buildFormData f (trainTestSplit s) (form e)) s2
             | (s2, c) \<Rightarrow> (s2, c))"

section \<open>Notions used to state the properties\<close>

text \<open>
  The property name under which the Row Transformer writes the column of a raw key, if it
  writes it at all.
\<close>

definition targetKey :: "jstring \<Rightarrow> jstring option" where
  "targetKey rawKey = map_option propertyKey (headerLookup rawKey)"

text \<open>A cell that is a string, empty or of white space only.\<close>

definition isBlankString :: "jsvalue \<Rightarrow> bool" where
  "isBlankString v = (case v of JString s \<Rightarrow> trim s = [] | _ \<Rightarrow> False)"

text \<open>The canonical field names: the values of the alias table.\<close>

definition canonicalFields :: "jstring set" where
  "canonicalFields = ascii ` snd ` set NORMALIZED_COLUMN_MAP"

text \<open>
  The value thrown inside the second \<open>try\<close> block for a result of the request, if any: the
  request fails, the body cannot be read, a field of the body \<open>null\<close> is read (\<open>error\<close> when
  the status is not a success, \<open>metrics_json\<close> when it is), or the status is not a success.
\<close>

definition trainingFailure :: "fetch_result \<Rightarrow> thrown option" where
  "trainingFailure r =
     (case r of
        FetchThrows err \<Rightarrow> Some err
      | FetchResponse ok (BodyThrows err) \<Rightarrow> Some err
      | FetchResponse ok (BodyNull readThrows) \<Rightarrow>
          Some (readThrows (if ok then ascii ''metrics_json'' else ascii ''error''))
      | FetchResponse ok (BodyJson errorField metrics) \<Rightarrow>
          if ok then None else Some (ErrorObject (errorOrUnknown errorField)))"

text \<open>
  Whether the entry of the completed training is already in the log when that value is
  thrown: so it is for a success status with the body \<open>null\<close>, and for no other result.
\<close>

definition completeBeforeFailure :: "fetch_result \<Rightarrow> bool" where
  "completeBeforeFailure r =
     (case r of
        FetchThrows err \<Rightarrow> False
      | FetchResponse ok (BodyThrows err) \<Rightarrow> False
      | FetchResponse ok (BodyNull readThrows) \<Rightarrow> ok
      | FetchResponse ok (BodyJson errorField metrics) \<Rightarrow> False)"

text \<open>The status log after a sequence of updates.\<close>

fun logAfter :: "status_op list \<Rightarrow> jstring list \<Rightarrow> jstring list" where
  "logAfter [] entries = entries"
| "logAfter (Clear # ops) entries = logAfter ops []"
| "logAfter (Append entry # ops) entries = logAfter ops (entries @ [entry])"

text \<open>One state leads to another by appending timestamped entries to the log only.\<close>

definition appendsOnly :: "app_state \<Rightarrow> app_state \<Rightarrow> bool" where
  "appendsOnly s s' \<longleftrightarrow>
     (\<exists>entries.
        statusOps s' = statusOps s @ map Append entries
        \<and> trainingStatus s' = trainingStatus s @ entries
        \<and> (\<forall>entry \<in> set entries. \<exists>stamp message. entry = statusEntry stamp message))"

text \<open>The name of the required field, and the state in which the handler enters its first \<open>try\<close>.\<close>

definition requiredField :: db_key where
  "requiredField = Column (ascii ''equilibrium_temp_K'')"

definition started :: "env \<Rightarrow> app_state \<Rightarrow> app_state" where
  "started e s =
     appendStatus e (ascii ''Starting training process...'')
       (setMetricsJson None (setTrainingStatusEmpty (setIsTraining True s)))"


definition insertSuccess :: jstring where
  "insertSuccess = [0x2705] @ ascii '' Data uploaded to Supabase table.''"

definition uploadingNotice :: jstring where
  "uploadingNotice = ascii ''Uploading file and starting model training...''"

definition completeNotice :: jstring where
  "completeNotice = [0x2705] @ ascii '' Training complete! New model saved successfully.''"

definition trainingError :: "jstring \<Rightarrow> jstring" where
  "trainingError message = [0x274C] @ ascii '' Error: '' @ message"

text \<open>
  The file is read and parsed without errors into the given result, and one of its
  headers is an alias of the required field: the handler reaches the bulk insert.
\<close>

definition parsesTo :: "env \<Rightarrow> papa_result \<Rightarrow> bool" where
  "parsesTo e parsed \<longleftrightarrow>
     (\<exists>text. fileText e = Inr text \<and> papaParse e text = parsed) \<and> parseErrors parsed = []"

definition hasRequiredField :: "papa_result \<Rightarrow> bool" where
  "hasRequiredField parsed \<longleftrightarrow> (\<exists>h \<in> set (csvHeaders parsed). headerLookup h = Some requiredField)"

text \<open>The rows and the form that a run sends.\<close>

definition rowsToInsert :: "papa_result \<Rightarrow> mapped_row list" where
  "rowsToInsert parsed = map rowToInsert (parseData parsed)"

definition formOf :: "env \<Rightarrow> app_state \<Rightarrow> csv_file \<Rightarrow> form_data" where
  "formOf e s f = buildFormData f (trainTestSplit s) (form e)"

text \<open>
  The message of the error thrown for a response whose status is not a success: the
  \<open>error\<close> field of the body or its stand-in, or the message of what reading the body, or
  reading the field \<open>error\<close> of the body \<open>null\<close>, threw.
\<close>

definition responseMessage :: "body \<Rightarrow> jstring" where
  "responseMessage b =
     (case b of
        BodyJson errorField metrics \<Rightarrow> errorOrUnknown errorField
      | BodyNull readThrows \<Rightarrow> errorMessage (readThrows (ascii ''error''))
      | BodyThrows err \<Rightarrow> errorMessage err)"

text \<open>The cross mark that opens every error entry of the log.\<close>

definition crossMark :: code_unit where
  "crossMark = 0x274C"

section \<open>Concrete runs\<close>

text \<open>
  The form with the default values of its inputs, a clock that stands still, and two files
  of two columns and one data row: one with an alias of the required field among its
  headers, one without. In a world made by \<open>worldWith\<close> the file is read and parsed without
  errors into the given headers and rows, and the two services answer as given.
\<close>

definition defaultForm :: hyper_form where
  "defaultForm =
     \<lparr>cv_folds = ascii ''5'', rf_estimators = ascii ''100'', xgb_estimators = ascii ''100'',
      lgbm_estimators = ascii ''100'', xgb_max_depth = ascii ''15'', lgbm_max_depth = ascii ''7'',
      learning_rate = ascii ''0.05''\<rparr>"

definition noon :: jstring where
  "noon = ascii ''12:00:00''"

definition parsedWith :: "jstring list \<Rightarrow> raw_row list \<Rightarrow> papa_result" where
  "parsedWith headers rows = \<lparr>parseErrors = [], parseData = rows, metaFields = Some headers\<rparr>"

definition worldWith ::
  "jstring \<Rightarrow> jstring list \<Rightarrow> raw_row list \<Rightarrow> insert_result \<Rightarrow> fetch_result \<Rightarrow> env" where
  "worldWith content headers rows inserted fetched =
     \<lparr>clock = (\<lambda>n. noon),
      fileText = Inr content,
      papaParse = (\<lambda>text. parsedWith headers rows),
      supabaseInsert = (\<lambda>rows. inserted),
      fetchTrain = (\<lambda>formData. fetched),
      form = defaultForm\<rparr>"

definition koiHeaders :: "jstring list" where
  "koiHeaders = [ascii ''koi_teq'', ascii ''ra'']"

definition koiRow :: raw_row where
  "koiRow = [(ascii ''koi_teq'', JString (ascii ''300'')), (ascii ''ra'', JString (ascii ''291.93''))]"

definition koiWorld :: "insert_result \<Rightarrow> fetch_result \<Rightarrow> env" where
  "koiWorld = worldWith (ascii ''koi_teq,ra'' @ [0x0A] @ ascii ''300,291.93'') koiHeaders [koiRow]"

definition failedToFetch :: thrown where
  "failedToFetch = ErrorObject (ascii ''Failed to fetch'')"

definition raHeaders :: "jstring list" where
  "raHeaders = [ascii ''ra'', ascii ''dec'']"

definition raRow :: raw_row where
  "raRow = [(ascii ''ra'', JString (ascii ''291.93'')), (ascii ''dec'', JString (ascii ''48.14''))]"

definition raWorld :: env where
  "raWorld = worldWith (ascii ''ra,dec'' @ [0x0A] @ ascii ''291.93,48.14'') raHeaders [raRow]
               (InsertReturns None) (FetchThrows failedToFetch)"

definition koiFile :: csv_file where
  "koiFile = CsvFile 0"

text \<open>
  The component at rest, with the file chosen or none, the slider at its initial value and
  a log that holds the entry of an earlier submission without a file.
\<close>

definition idleState :: "csv_file option \<Rightarrow> app_state" where
  "idleState chosen =
     \<lparr>trainTestSplit = 80,
      trainingStatus = [statusEntry noon (ascii ''Error: Please select a file first'')],
      isTraining = False,
      selectedFile = chosen,
      metricsJson = None,
      ticks = 0,
      statusOps = [],
      network = []\<rparr>"

text \<open>The log of a run that passes the pre-flight check and the insert, up to the request.\<close>

definition logUpToRequest :: "jstring list" where
  "logUpToRequest =
     [statusEntry noon (ascii ''Starting training process...''),
      statusEntry noon (ascii ''Parsing CSV file...''),
      statusEntry noon (ascii ''Running pre-flight check on CSV headers...''),
      statusEntry noon (ascii ''Found 2 columns. Mapped 2.''),
      statusEntry noon ([0x2705] @ ascii '' Pre-flight check passed. All critical columns found.''),
      statusEntry noon (ascii ''Mapped 1 rows. Uploading to Supabase...''),
      statusEntry noon insertSuccess,
      statusEntry noon uploadingNotice]"

section \<open>Header normalization\<close>

lemmas string_eval = ascii_def trim_def toLowerCase_def lowerUnit_def isLowerAlnum_def
  isWhiteSpace_def stripNonAlnum_def normalizedKey_def foldedAlnum_def








lemma normalizedKey_empty: "normalizedKey [] = []"
  by (simp add: string_eval)

subsection \<open>Looking up ASCII keys\<close>

lemma unat_of_char: "unat (of_char c :: 16 word) = of_char c"
proof -
  have "(of_char c :: 16 word) = of_nat (of_char c)"
    by (simp add: of_nat_of_char)
  moreover have "(of_char c :: nat) < 2 ^ 16"
    by (rule order_less_trans [OF nat_of_char_less_256]) simp
  ultimately show ?thesis
    by (simp add: unat_of_nat)
qed

lemma of_char_word_inject: "(of_char a :: 16 word) = of_char b \<longleftrightarrow> a = b"
proof
  assume "(of_char a :: 16 word) = of_char b"
  then have "unat (of_char a :: 16 word) = unat (of_char b :: 16 word)" by simp
  then have "(of_char a :: nat) = of_char b" by (simp only: unat_of_char)
  then show "a = b" by simp
qed simp

lemma ascii_inject: "ascii a = ascii b \<longleftrightarrow> a = b"
  unfolding ascii_def
  by (rule inj_map_eq_map) (simp add: inj_on_def of_char_word_inject)

lemma ascii_empty: "ascii a = [] \<longleftrightarrow> a = []"
  by (simp add: ascii_def)

lemma map_of_ascii:
  "map_of (map (\<lambda>(key, v). (ascii key, ascii v)) xs) (ascii k) = map_option ascii (map_of xs k)"
  by (induction xs) (auto simp: ascii_inject)

lemma columnLookup_ascii:
  "columnLookup (ascii k) =
     (case map_of NORMALIZED_COLUMN_MAP k of
        Some v \<Rightarrow> Some (Column (ascii v))
      | None \<Rightarrow> if k = ''constructor'' then Some ObjectFunction else None)"
  by (simp add: columnLookup_def map_of_ascii ascii_inject split: option.splits)

text \<open>No key is written twice in the literal, so the first entry for a key is the only one.\<close>

lemma alias_keys_distinct: "distinct (map fst NORMALIZED_COLUMN_MAP)"
  by (simp add: NORMALIZED_COLUMN_MAP_def)

lemma columnLookup_empty: "columnLookup [] = None"
  using columnLookup_ascii [of "[]"] by (simp add: ascii_def NORMALIZED_COLUMN_MAP_def)

lemma headerLookup_empty: "headerLookup [] = None"
  by (simp add: headerLookup_def normalizedKey_empty columnLookup_empty)

lemma columnLookup_canonical: "columnLookup k = Some (Column v) \<Longrightarrow> v \<in> canonicalFields"
proof -
  assume h: "columnLookup k = Some (Column v)"
  then obtain w where "map_of (map (\<lambda>(key, v). (ascii key, ascii v)) NORMALIZED_COLUMN_MAP) k = Some w"
    and "w = v"
    by (auto simp: columnLookup_def split: option.splits if_splits)
  then have "(k, v) \<in> set (map (\<lambda>(key, v). (ascii key, ascii v)) NORMALIZED_COLUMN_MAP)"
    by (auto dest: map_of_SomeD)
  then show ?thesis
    by (force simp: canonicalFields_def)
qed

lemma columnLookup_function: "columnLookup k = Some ObjectFunction \<Longrightarrow> k = ascii ''constructor''"
  by (auto simp: columnLookup_def split: option.splits if_splits)

text \<open>The concrete headers of the examples.\<close>

lemma normalizedKey_examples:
  "normalizedKey (ascii ''koi_teq'') = ascii ''koiteq''"
  "normalizedKey (ascii '' KOI_TEQ '') = ascii ''koiteq''"
  "normalizedKey (ascii ''koi-teq'') = ascii ''koiteq''"
  "normalizedKey (ascii ''Source'') = ascii ''source''"
  "normalizedKey (ascii ''ra'') = ascii ''ra''"
  "normalizedKey (ascii ''dec'') = ascii ''dec''"
  "normalizedKey (ascii ''constructor'') = ascii ''constructor''"
  "normalizedKey (ascii ''pl_eqt'') = ascii ''pleqt''"
  "normalizedKey (ascii ''source'') = ascii ''source''"
  by (simp_all add: string_eval)

lemma columnLookup_examples:
  "columnLookup (ascii ''koiteq'') = Some (Column (ascii ''equilibrium_temp_K''))"
  "columnLookup (ascii ''source'') = Some (Column (ascii ''source''))"
  "columnLookup (ascii ''ra'') = Some (Column (ascii ''ra_deg''))"
  "columnLookup (ascii ''dec'') = Some (Column (ascii ''dec_deg''))"
  "columnLookup (ascii ''constructor'') = Some ObjectFunction"
  "columnLookup (ascii ''pleqt'') = Some (Column (ascii ''equilibrium_temp_K''))"
  by (simp_all add: columnLookup_ascii NORMALIZED_COLUMN_MAP_def)

lemmas lookup_examples = headerLookup_def targetKey_def propertyKey_def
  normalizedKey_examples columnLookup_examples ascii_inject ascii_empty



section \<open>The Row Transformer\<close>

lemma cellValue_blank: "cellValue v = (if isBlankString v then JNull else v)"
  by (simp add: cellValue_def isBlankString_def split: jsvalue.splits)

lemma blank_examples:
  "isBlankString (JString [])" "isBlankString (JString (ascii ''  ''))"
  "\<not> isBlankString (JString (ascii ''300''))" "\<not> isBlankString (JString (ascii ''x''))"
  by (simp_all add: isBlankString_def ascii_def trim_def isWhiteSpace_def)

lemma mapColumns_append: "mapColumns (xs @ ys) m = mapColumns ys (mapColumns xs m)"
  by (induction xs arbitrary: m) simp_all

lemma mapColumn_target:
  "targetKey (fst kv) = Some key \<Longrightarrow> mapColumn kv m key = Some (cellValue (snd kv))"
  by (auto simp: targetKey_def headerLookup_def mapColumn_def split: option.splits)

lemma mapColumn_other:
  "targetKey (fst kv) \<noteq> Some key \<Longrightarrow> mapColumn kv m key = m key"
  by (auto simp: targetKey_def headerLookup_def mapColumn_def split: option.splits)

lemma mapColumns_other:
  "\<forall>kv \<in> set cols. targetKey (fst kv) \<noteq> Some key \<Longrightarrow> mapColumns cols m key = m key"
  by (induction cols arbitrary: m) (simp_all add: mapColumn_other)

text \<open>
  In the finished row a property holds what the last column written under it gave, but
  for the property \<open>source\<close>, which the default replaces when that value is falsy.
\<close>

lemma mapColumns_last_write:
  assumes "targetKey rawKey = Some key"
    and "\<forall>kv \<in> set after. targetKey (fst kv) \<noteq> Some key"
  shows "mapColumns (before @ (rawKey, v) # after) m key = Some (cellValue v)"
  using assms by (simp add: mapColumns_append mapColumns_other mapColumn_target)

lemma rowToInsert_last_write:
  assumes "targetKey rawKey = Some key"
    and "\<forall>kv \<in> set after. targetKey (fst kv) \<noteq> Some key"
    and "key \<noteq> ascii ''source''"
  shows "rowToInsert (before @ (rawKey, v) # after) key = Some (if isBlankString v then JNull else v)"
  using mapColumns_last_write [OF assms(1,2), of before v Map.empty] assms(3)
  by (simp add: rowToInsert_def Let_def cellValue_blank)

lemmas row_eval = lookup_examples mapColumn_def cellValue_blank blank_examples getProp_def
  rowToInsert_def

lemma koi_teq_row:
  "rowToInsert [(ascii ''koi_teq'', JString [])] =
     [ascii ''equilibrium_temp_K'' \<mapsto> JNull, ascii ''source'' \<mapsto> JString (ascii ''uploaded_csv'')]"
  by (simp add: row_eval)

subsection \<open>The keys of a mapped row\<close>

lemma canonicalFields_enum:
  "canonicalFields = ascii ` {''orbital_period_days'', ''planet_radius_rearth'',
     ''insolation_flux_eflux'', ''equilibrium_temp_K'', ''stellar_teff_K'', ''stellar_logg_cgs'',
     ''stellar_radius_rsun'', ''stellar_mag'', ''ra_deg'', ''dec_deg'', ''label'', ''source''}"
  unfolding canonicalFields_def NORMALIZED_COLUMN_MAP_def
  by (rule arg_cong [where f = "image ascii"]) auto

lemma canonical_names_normalize:
  "normalizedKey (ascii ''orbital_period_days'') = ascii ''orbitalperioddays''"
  "normalizedKey (ascii ''planet_radius_rearth'') = ascii ''planetradiusrearth''"
  "normalizedKey (ascii ''insolation_flux_eflux'') = ascii ''insolationfluxeflux''"
  "normalizedKey (ascii ''equilibrium_temp_K'') = ascii ''equilibriumtempk''"
  "normalizedKey (ascii ''stellar_teff_K'') = ascii ''stellarteffk''"
  "normalizedKey (ascii ''stellar_logg_cgs'') = ascii ''stellarloggcgs''"
  "normalizedKey (ascii ''stellar_radius_rsun'') = ascii ''stellarradiusrsun''"
  "normalizedKey (ascii ''stellar_mag'') = ascii ''stellarmag''"
  "normalizedKey (ascii ''ra_deg'') = ascii ''radeg''"
  "normalizedKey (ascii ''dec_deg'') = ascii ''decdeg''"
  "normalizedKey (ascii ''label'') = ascii ''label''"
  "normalizedKey (ascii ''source'') = ascii ''source''"
  by (simp_all add: string_eval)

text \<open>Every canonical field name is itself an alias: its normalized form is a key of the table.\<close>

lemma canonical_names_are_aliases:
  "v \<in> canonicalFields \<Longrightarrow> \<exists>d. columnLookup (normalizedKey v) = Some (Column d)"
  unfolding canonicalFields_enum
  by (auto simp: canonical_names_normalize columnLookup_ascii NORMALIZED_COLUMN_MAP_def)

lemma mapColumn_keys:
  assumes "normalizedKey (fst kv) \<noteq> ascii ''constructor''"
  shows "dom (mapColumn kv m) \<subseteq> dom m \<union> canonicalFields"
proof (cases "columnLookup (normalizedKey (fst kv))")
  case None
  then show ?thesis by (auto simp: mapColumn_def)
next
  case (Some d)
  with assms obtain v where d: "d = Column v"
    by (cases d) (auto dest: columnLookup_function)
  with Some have "v \<in> canonicalFields" by (simp add: columnLookup_canonical)
  with Some d show ?thesis by (auto simp: mapColumn_def propertyKey_def)
qed

lemma mapColumns_keys:
  "\<forall>kv \<in> set row. normalizedKey (fst kv) \<noteq> ascii ''constructor''
   \<Longrightarrow> dom (mapColumns row m) \<subseteq> dom m \<union> canonicalFields"
proof (induction row arbitrary: m)
  case Nil
  then show ?case by simp
next
  case (Cons kv row)
  then have "dom (mapColumns row (mapColumn kv m)) \<subseteq> dom (mapColumn kv m) \<union> canonicalFields"
    by simp
  moreover from Cons.prems have "dom (mapColumn kv m) \<subseteq> dom m \<union> canonicalFields"
    by (simp add: mapColumn_keys)
  ultimately show ?case by auto
qed

text \<open>
  What holds of the keys of a mapped row when no column of the raw row has a name that
  normalizes to \<open>constructor\<close>: they are canonical field names or \<open>source\<close>, and no header
  that the table does not map is among them.
\<close>

lemma rowToInsert_keys:
  assumes "\<forall>kv \<in> set row. normalizedKey (fst kv) \<noteq> ascii ''constructor''"
  shows "dom (rowToInsert row) \<subseteq> canonicalFields \<union> {ascii ''source''}"
  using mapColumns_keys [OF assms, of Map.empty]
  by (auto simp: rowToInsert_def Let_def split: if_splits)

lemma rowToInsert_drops_unmapped:
  assumes "\<forall>kv \<in> set row. normalizedKey (fst kv) \<noteq> ascii ''constructor''"
    and "headerLookup header = None"
  shows "header \<notin> dom (rowToInsert row)"
proof
  assume "header \<in> dom (rowToInsert row)"
  with rowToInsert_keys [OF assms(1)] have "header \<in> canonicalFields \<union> {ascii ''source''}"
    by blast
  moreover have "ascii ''source'' \<in> canonicalFields"
    by (simp add: canonicalFields_enum)
  ultimately have "header \<in> canonicalFields" by auto
  from canonical_names_are_aliases [OF this] assms(2) show False
    by (simp add: headerLookup_def)
qed

text \<open>
  C3. The Row Transformer is meant to drop every column whose header is not an alias of
  the table, so that the keys of its output are canonical field names and \<open>source\<close> only.
  A column named \<open>constructor\<close> is not dropped: \<open>constructor\<close> is no key of the table, yet
  the lookup finds the function \<open>Object\<close> on the prototype of the table, and the cell is
  written under the text of that function, which is no canonical field name.
\<close>

theorem C3_constructor_column_kept:
  "map_of NORMALIZED_COLUMN_MAP ''constructor'' = None
   \<and> normalizedKey (ascii ''constructor'') = ascii ''constructor''
   \<and> rowToInsert [(ascii ''koi_teq'', JString (ascii ''300'')), (ascii ''constructor'', JString (ascii ''x''))]
       = [ascii ''equilibrium_temp_K'' \<mapsto> JString (ascii ''300''),
          ascii ''function Object() { [native code] }'' \<mapsto> JString (ascii ''x''),
          ascii ''source'' \<mapsto> JString (ascii ''uploaded_csv'')]
   \<and> ascii ''function Object() { [native code] }'' \<notin> canonicalFields \<union> {ascii ''source''}"
  by (simp add: row_eval canonicalFields_enum NORMALIZED_COLUMN_MAP_def image_iff)

text \<open>
  With a second column whose header is the text of that function, the output even has a
  key equal to a header that the table does not map.
\<close>

lemma function_text_unmapped:
  "columnLookup (normalizedKey (ascii ''function Object() { [native code] }'')) = None"
  "headerLookup (ascii ''function Object() { [native code] }'') = None"
proof -
  have "normalizedKey (ascii ''function Object() { [native code] }'') = ascii ''functionobjectnativecode''"
    by (simp add: string_eval)
  then show "columnLookup (normalizedKey (ascii ''function Object() { [native code] }'')) = None"
    by (simp add: columnLookup_ascii NORMALIZED_COLUMN_MAP_def)
  then show "headerLookup (ascii ''function Object() { [native code] }'') = None"
    by (simp add: headerLookup_def)
qed

lemma rowToInsert_key_is_unmapped_header:
  "rowToInsert [(ascii ''constructor'', JString (ascii ''x'')),
                (ascii ''function Object() { [native code] }'', JString (ascii ''300''))]
     (ascii ''function Object() { [native code] }'') = Some (JString (ascii ''x''))"
  by (simp add: row_eval function_text_unmapped(1))

text \<open>The assignment in the loop: what the property holds right after a column is processed.\<close>

lemma mapColumns_write:
  "targetKey rawKey = Some key \<Longrightarrow>
     mapColumns (before @ [(rawKey, v)]) m key = Some (if isBlankString v then JNull else v)"
  by (simp add: mapColumns_append mapColumn_target cellValue_blank)

text \<open>
  C4, as the code has it. Take any raw row and any column of it that the table maps, with
  no later column of the row mapped to the same canonical key. In the output record of
  the Row Transformer that key holds \<open>null\<close> when the cell is a string that is empty or of
  white space only, and the cell itself, unchanged, otherwise; under the key \<open>source\<close>,
  though, a blank cell and any other falsy value give \<open>"uploaded_csv"\<close>. In particular the
  row \<open>{koi_teq: ""}\<close> becomes \<open>{equilibrium_temp_K: null, source: "uploaded_csv"}\<close>.
\<close>

theorem C4_blank_cell_null_in_output:
  "(targetKey rawKey = Some key \<and> (\<forall>kv \<in> set after. targetKey (fst kv) \<noteq> Some key) \<longrightarrow>
      rowToInsert (before @ (rawKey, v) # after) key
        = Some (if isBlankString v
                then (if key = ascii ''source'' then JString (ascii ''uploaded_csv'') else JNull)
                else (if key = ascii ''source'' \<and> \<not> truthy v then JString (ascii ''uploaded_csv'')
                      else v)))
   \<and> rowToInsert [(ascii ''koi_teq'', JString [])] =
       [ascii ''equilibrium_temp_K'' \<mapsto> JNull, ascii ''source'' \<mapsto> JString (ascii ''uploaded_csv'')]"
proof -
  have "rowToInsert (before @ (rawKey, v) # after) key
        = Some (if isBlankString v
                then (if key = ascii ''source'' then JString (ascii ''uploaded_csv'') else JNull)
                else (if key = ascii ''source'' \<and> \<not> truthy v then JString (ascii ''uploaded_csv'')
                      else v))"
    if t: "targetKey rawKey = Some key"
      and l: "\<forall>kv \<in> set after. targetKey (fst kv) \<noteq> Some key"
  proof -
    have m: "mapColumns (before @ (rawKey, v) # after) Map.empty key
               = Some (if isBlankString v then JNull else v)"
      using mapColumns_last_write [OF t l, of before v Map.empty] by (simp add: cellValue_blank)
    show ?thesis
    proof (cases "key = ascii ''source''")
      case True
      with m show ?thesis
        by (simp add: rowToInsert_def Let_def getProp_def)
    next
      case False
      with m show ?thesis
        by (simp add: rowToInsert_def Let_def)
    qed
  qed
  then show ?thesis
    by (simp add: koi_teq_row)
qed

theorem C4_blank_cell_null_in_output_witness:
  "targetKey (ascii ''koi_teq'') = Some (ascii ''equilibrium_temp_K'')
   \<and> targetKey (ascii ''dec'') \<noteq> Some (ascii ''equilibrium_temp_K'')
   \<and> isBlankString (JString (ascii ''  ''))
   \<and> rowToInsert ([(ascii ''ra'', JString (ascii ''291.93''))]
                    @ (ascii ''koi_teq'', JString (ascii ''  ''))
                    # [(ascii ''dec'', JString (ascii ''48.14''))])
        (ascii ''equilibrium_temp_K'') = Some JNull
   \<and> \<not> isBlankString (JString (ascii ''300''))
   \<and> rowToInsert ([(ascii ''ra'', JString (ascii ''291.93''))]
                    @ (ascii ''koi_teq'', JString (ascii ''300''))
                    # [(ascii ''dec'', JString (ascii ''48.14''))])
        (ascii ''equilibrium_temp_K'') = Some (JString (ascii ''300''))"
proof -
  have t: "targetKey (ascii ''koi_teq'') = Some (ascii ''equilibrium_temp_K'')"
    and d: "targetKey (ascii ''dec'') \<noteq> Some (ascii ''equilibrium_temp_K'')"
    and k: "ascii ''equilibrium_temp_K'' \<noteq> ascii ''source''"
    by (simp_all add: lookup_examples)
  from d have l: "\<forall>kv \<in> set [(ascii ''dec'', JString (ascii ''48.14''))].
                    targetKey (fst kv) \<noteq> Some (ascii ''equilibrium_temp_K'')"
    by simp
  note c = C4_blank_cell_null_in_output
             [of "ascii ''koi_teq''" "ascii ''equilibrium_temp_K''"
                 "[(ascii ''dec'', JString (ascii ''48.14''))]"
                 "[(ascii ''ra'', JString (ascii ''291.93''))]"]
  from c [of "JString (ascii ''  '')"] t l k
  have "rowToInsert ([(ascii ''ra'', JString (ascii ''291.93''))]
                    @ (ascii ''koi_teq'', JString (ascii ''  ''))
                    # [(ascii ''dec'', JString (ascii ''48.14''))])
        (ascii ''equilibrium_temp_K'') = Some JNull"
    by (simp add: blank_examples)
  moreover from c [of "JString (ascii ''300'')"] t l k
  have "rowToInsert ([(ascii ''ra'', JString (ascii ''291.93''))]
                    @ (ascii ''koi_teq'', JString (ascii ''300''))
                    # [(ascii ''dec'', JString (ascii ''48.14''))])
        (ascii ''equilibrium_temp_K'') = Some (JString (ascii ''300''))"
    by (simp add: blank_examples)
  ultimately show ?thesis using t d by (simp add: blank_examples)
qed

text \<open>
  The claim as stated fails, read of the output record. A blank \<open>koi_teq\<close> cell followed by
  a \<open>pl_eqt\<close> column leaves under \<open>equilibrium_temp_K\<close> the cell of the later column, and a
  blank \<open>source\<close> cell leaves \<open>"uploaded_csv"\<close> under \<open>source\<close>: neither key holds \<open>null\<close>.
\<close>

theorem C4_blank_cell_not_null_in_output:
  "targetKey (ascii ''koi_teq'') = Some (ascii ''equilibrium_temp_K'')
   \<and> isBlankString (JString [])
   \<and> rowToInsert [(ascii ''koi_teq'', JString []), (ascii ''pl_eqt'', JString (ascii ''300''))]
        (ascii ''equilibrium_temp_K'') = Some (JString (ascii ''300''))
   \<and> targetKey (ascii ''source'') = Some (ascii ''source'')
   \<and> rowToInsert [(ascii ''koi_teq'', JString (ascii ''300'')), (ascii ''source'', JString [])]
        (ascii ''source'') = Some (JString (ascii ''uploaded_csv''))"
  by (simp add: row_eval)

text \<open>
  C10. The default \<open>source = "uploaded_csv"\<close> is put in whenever the value of \<open>source\<close> in the
  mapped row is falsy, not only when the row has no such column: a \<open>source\<close> column whose
  cell is blank is first written as \<open>null\<close> and then replaced by the default. The output
  always has a \<open>source\<close>, and it is never \<open>null\<close>.
\<close>

theorem C10_source_default:
  "(\<not> truthy (getProp (mapColumns row Map.empty) (ascii ''source'')) \<longrightarrow>
      rowToInsert row (ascii ''source'') = Some (JString (ascii ''uploaded_csv'')))
   \<and> (targetKey rawKey = Some (ascii ''source'') \<and> isBlankString v
        \<and> (\<forall>kv \<in> set after. targetKey (fst kv) \<noteq> Some (ascii ''source'')) \<longrightarrow>
      mapColumns (before @ (rawKey, v) # after) Map.empty (ascii ''source'') = Some JNull
      \<and> rowToInsert (before @ (rawKey, v) # after) (ascii ''source'')
          = Some (JString (ascii ''uploaded_csv'')))
   \<and> rowToInsert row (ascii ''source'') \<noteq> Some JNull
   \<and> rowToInsert row (ascii ''source'') \<noteq> None"
proof -
  have a: "rowToInsert r (ascii ''source'') = Some (JString (ascii ''uploaded_csv''))"
    if "\<not> truthy (getProp (mapColumns r Map.empty) (ascii ''source''))" for r
    using that by (simp add: rowToInsert_def)
  have b: "mapColumns (before @ (rawKey, v) # after) Map.empty (ascii ''source'') = Some JNull"
    if "targetKey rawKey = Some (ascii ''source'')" "isBlankString v"
       "\<forall>kv \<in> set after. targetKey (fst kv) \<noteq> Some (ascii ''source'')"
    using mapColumns_last_write [OF that(1) that(3)] that(2) by (simp add: cellValue_blank)
  have c: "rowToInsert r (ascii ''source'') \<noteq> Some JNull \<and> rowToInsert r (ascii ''source'') \<noteq> None"
    for r
    by (auto simp: rowToInsert_def getProp_def Let_def split: option.splits)
  from b have b': "rowToInsert (before @ (rawKey, v) # after) (ascii ''source'')
                     = Some (JString (ascii ''uploaded_csv''))"
    if "targetKey rawKey = Some (ascii ''source'')" "isBlankString v"
       "\<forall>kv \<in> set after. targetKey (fst kv) \<noteq> Some (ascii ''source'')"
    using that by (intro a) (simp add: getProp_def)
  from a b b' c show ?thesis by blast
qed

theorem C10_source_default_witness:
  "targetKey (ascii ''Source'') = Some (ascii ''source'')
   \<and> isBlankString (JString (ascii ''  ''))
   \<and> mapColumns ([] @ (ascii ''Source'', JString (ascii ''  '')) # []) Map.empty (ascii ''source'')
       = Some JNull
   \<and> rowToInsert ([] @ (ascii ''Source'', JString (ascii ''  '')) # []) (ascii ''source'')
       = Some (JString (ascii ''uploaded_csv''))"
proof -
  have t: "targetKey (ascii ''Source'') = Some (ascii ''source'')"
    by (simp add: lookup_examples)
  from C10_source_default
         [of _ "ascii ''Source''" "JString (ascii ''  '')" "[]" "[]"] t
  show ?thesis by (simp add: blank_examples)
qed

section \<open>State updates and control\<close>

lemma appendStatus_fields [simp]:
  "trainingStatus (appendStatus e m s) = trainingStatus s @ [statusEntry (clock e (ticks s)) m]"
  "statusOps (appendStatus e m s) = statusOps s @ [Append (statusEntry (clock e (ticks s)) m)]"
  "ticks (appendStatus e m s) = Suc (ticks s)"
  "isTraining (appendStatus e m s) = isTraining s"
  "network (appendStatus e m s) = network s"
  "metricsJson (appendStatus e m s) = metricsJson s"
  "selectedFile (appendStatus e m s) = selectedFile s"
  "trainTestSplit (appendStatus e m s) = trainTestSplit s"
  by (simp_all add: appendStatus_def Let_def)

lemma setIsTraining_fields [simp]:
  "trainingStatus (setIsTraining b s) = trainingStatus s"
  "statusOps (setIsTraining b s) = statusOps s"
  "ticks (setIsTraining b s) = ticks s"
  "isTraining (setIsTraining b s) = b"
  "network (setIsTraining b s) = network s"
  "metricsJson (setIsTraining b s) = metricsJson s"
  "selectedFile (setIsTraining b s) = selectedFile s"
  "trainTestSplit (setIsTraining b s) = trainTestSplit s"
  by (simp_all add: setIsTraining_def)

lemma setMetricsJson_fields [simp]:
  "trainingStatus (setMetricsJson m s) = trainingStatus s"
  "statusOps (setMetricsJson m s) = statusOps s"
  "ticks (setMetricsJson m s) = ticks s"
  "isTraining (setMetricsJson m s) = isTraining s"
  "network (setMetricsJson m s) = network s"
  "metricsJson (setMetricsJson m s) = m"
  "selectedFile (setMetricsJson m s) = selectedFile s"
  "trainTestSplit (setMetricsJson m s) = trainTestSplit s"
  by (simp_all add: setMetricsJson_def)

lemma setTrainingStatusEmpty_fields [simp]:
  "trainingStatus (setTrainingStatusEmpty s) = []"
  "statusOps (setTrainingStatusEmpty s) = statusOps s @ [Clear]"
  "ticks (setTrainingStatusEmpty s) = ticks s"
  "isTraining (setTrainingStatusEmpty s) = isTraining s"
  "network (setTrainingStatusEmpty s) = network s"
  "metricsJson (setTrainingStatusEmpty s) = metricsJson s"
  "selectedFile (setTrainingStatusEmpty s) = selectedFile s"
  "trainTestSplit (setTrainingStatusEmpty s) = trainTestSplit s"
  by (simp_all add: setTrainingStatusEmpty_def)

lemma perform_fields [simp]:
  "trainingStatus (perform op s) = trainingStatus s"
  "statusOps (perform op s) = statusOps s"
  "ticks (perform op s) = ticks s"
  "isTraining (perform op s) = isTraining s"
  "network (perform op s) = network s @ [op]"
  "metricsJson (perform op s) = metricsJson s"
  "selectedFile (perform op s) = selectedFile s"
  "trainTestSplit (perform op s) = trainTestSplit s"
  by (simp_all add: perform_def)

lemma started_fields [simp]:
  "trainingStatus (started e s) = [statusEntry (clock e (ticks s)) (ascii ''Starting training process...'')]"
  "statusOps (started e s)
     = statusOps s @ [Clear, Append (statusEntry (clock e (ticks s)) (ascii ''Starting training process...''))]"
  "isTraining (started e s) = True"
  "network (started e s) = network s"
  "metricsJson (started e s) = None"
  by (simp_all add: started_def)

lemma tryCatch_Throw: "block s = (s1, Throw err) \<Longrightarrow> tryCatch block handler s = handler err s1"
  by (simp add: tryCatch_def)

lemma tryCatch_Normal: "block s = (s1, Normal) \<Longrightarrow> tryCatch block handler s = (s1, Normal)"
  by (simp add: tryCatch_def)

lemma tryCatch_Return: "block s = (s1, Return) \<Longrightarrow> tryCatch block handler s = (s1, Return)"
  by (simp add: tryCatch_def)

lemma tryCatch_cases:
  obtains s1 err where "block s = (s1, Throw err)" "tryCatch block handler s = handler err s1"
  | s1 c where "block s = (s1, c)" "tryCatch block handler s = (s1, c)" "c = Normal \<or> c = Return"
proof (cases "block s")
  case (Pair s1 c)
  then show ?thesis
    by (cases c) (auto intro: that simp: tryCatch_def)
qed

subsection \<open>Appending only\<close>

lemma appendsOnly_refl [simp]: "appendsOnly s s"
  by (auto simp: appendsOnly_def intro: exI [of _ "[]"])

lemma appendsOnly_trans: "appendsOnly s s1 \<Longrightarrow> appendsOnly s1 s2 \<Longrightarrow> appendsOnly s s2"
proof -
  assume "appendsOnly s s1" and "appendsOnly s1 s2"
  then obtain xs ys where
    xs: "statusOps s1 = statusOps s @ map Append xs" "trainingStatus s1 = trainingStatus s @ xs"
        "\<forall>x \<in> set xs. \<exists>stamp message. x = statusEntry stamp message"
    and ys: "statusOps s2 = statusOps s1 @ map Append ys" "trainingStatus s2 = trainingStatus s1 @ ys"
        "\<forall>y \<in> set ys. \<exists>stamp message. y = statusEntry stamp message"
    unfolding appendsOnly_def by blast
  show ?thesis
    unfolding appendsOnly_def
    by (rule exI [of _ "xs @ ys"]) (use xs ys in auto)
qed

lemma appendsOnly_appendStatus [intro!]:
  "appendsOnly s s1 \<Longrightarrow> appendsOnly s (appendStatus e m s1)"
proof (rule appendsOnly_trans)
  show "appendsOnly s1 (appendStatus e m s1)"
    unfolding appendsOnly_def
    by (rule exI [of _ "[statusEntry (clock e (ticks s1)) m]"]) auto
qed

lemma appendsOnly_setIsTraining [intro!]:
  "appendsOnly s s1 \<Longrightarrow> appendsOnly s (setIsTraining b s1)"
  by (simp add: appendsOnly_def)

lemma appendsOnly_setMetricsJson [intro!]:
  "appendsOnly s s1 \<Longrightarrow> appendsOnly s (setMetricsJson m s1)"
  by (simp add: appendsOnly_def)

lemma appendsOnly_perform [intro!]:
  "appendsOnly s s1 \<Longrightarrow> appendsOnly s (perform op s1)"
  by (simp add: appendsOnly_def)

lemma appendsOnly_tryCatch:
  assumes "\<And>s. appendsOnly s (fst (block s))"
    and "\<And>err s. appendsOnly s (fst (handler err s))"
  shows "appendsOnly s (fst (tryCatch block handler s))"
proof (cases rule: tryCatch_cases [of block s handler])
  case (1 s1 err)
  from assms(1) [of s] 1(1) have "appendsOnly s s1" by simp
  moreover from assms(2) [of s1 err] have "appendsOnly s1 (fst (handler err s1))" .
  ultimately show ?thesis using 1(2) by (simp add: appendsOnly_trans)
next
  case (2 s1 c)
  with assms(1) [of s] show ?thesis by simp
qed

section \<open>The stages of the handler\<close>

subsection \<open>The pre-flight check\<close>

lemma scanHeaders_mapped:
  "set (fst (scanHeaders hs (m, u))) = set m \<union> {d. \<exists>h \<in> set hs. headerLookup h = Some d}"
proof (induction hs arbitrary: m u)
  case Nil
  then show ?case by simp
next
  case (Cons h hs)
  show ?case
  proof (cases "h = []")
    case True
    with Cons show ?thesis by (simp add: headerLookup_empty)
  next
    case False
    with Cons show ?thesis
      by (cases "columnLookup (normalizedKey h)") (auto simp: headerLookup_def)
  qed
qed

lemma required_scanned:
  "requiredField \<in> set (fst (scanHeaders hs ([], []))) \<longleftrightarrow> (\<exists>h \<in> set hs. headerLookup h = Some requiredField)"
  by (simp add: scanHeaders_mapped)

lemma preflight_completion:
  "snd (preflight e hs s) = (if requiredField \<in> set (fst (scanHeaders hs ([], []))) then Normal else Return)"
  by (simp add: preflight_def Let_def requiredField_def)

lemma preflight_network [simp]: "network (fst (preflight e hs s)) = network s"
  by (simp add: preflight_def Let_def)

lemma preflight_appendsOnly: "appendsOnly s (fst (preflight e hs s))"
  by (auto simp: preflight_def Let_def)

lemma preflight_passed:
  assumes "snd (preflight e hs s) = Normal"
  shows "isTraining (fst (preflight e hs s)) = isTraining s"
    and "metricsJson (fst (preflight e hs s)) = metricsJson s"
  using assms by (simp_all add: preflight_def Let_def split: if_splits)

lemma preflight_halted:
  assumes "requiredField \<notin> set (fst (scanHeaders hs ([], [])))"
  shows "snd (preflight e hs s) = Return"
    and "isTraining (fst (preflight e hs s)) = False"
    and "\<exists>earlier t1 t2. trainingStatus (fst (preflight e hs s))
           = earlier @ [statusEntry t1 criticalError, statusEntry t2 criticalAdvice]"
proof -
  from assms obtain s3 where
    r: "preflight e hs s
          = (setIsTraining False (appendStatus e criticalAdvice (appendStatus e criticalError s3)), Return)"
    by (simp add: preflight_def Let_def requiredField_def)
  from r show "snd (preflight e hs s) = Return" by simp
  from r show "isTraining (fst (preflight e hs s)) = False" by simp
  from r have "trainingStatus (fst (preflight e hs s))
      = trainingStatus s3 @ [statusEntry (clock e (ticks s3)) criticalError,
                             statusEntry (clock e (Suc (ticks s3))) criticalAdvice]"
    by simp
  then show "\<exists>earlier t1 t2. trainingStatus (fst (preflight e hs s))
           = earlier @ [statusEntry t1 criticalError, statusEntry t2 criticalAdvice]"
    by blast
qed

subsection \<open>The bulk insert\<close>

lemma bulkInsert_network [simp]:
  "network (fst (bulkInsert e rows s)) = network s @ [SupabaseInsert (map rowToInsert rows)]"
  by (simp add: bulkInsert_def Let_def split: insert_result.splits option.splits)

lemma bulkInsert_appendsOnly: "appendsOnly s (fst (bulkInsert e rows s))"
  by (auto simp: bulkInsert_def Let_def split: insert_result.splits option.splits)


lemma bulkInsert_accepted:
  assumes "supabaseInsert e (map rowToInsert rows) = InsertReturns None"
  shows "snd (bulkInsert e rows s) = Normal"
    and "isTraining (fst (bulkInsert e rows s)) = isTraining s"
    and "metricsJson (fst (bulkInsert e rows s)) = metricsJson s"
    and "\<exists>earlier t. trainingStatus (fst (bulkInsert e rows s))
           = earlier @ [statusEntry t insertSuccess]"
  using assms by (simp_all add: bulkInsert_def Let_def insertSuccess_def) blast

lemma bulkInsert_threw:
  assumes "supabaseInsert e (map rowToInsert rows) = InsertThrows err"
  shows "snd (bulkInsert e rows s) = Throw err"
  using assms by (simp add: bulkInsert_def Let_def)

subsection \<open>The first \<open>try\<close> block\<close>

lemma uploadBlock_parsed:
  assumes "parsesTo e parsed"
  shows "uploadBlock e s =
     (case preflight e (csvHeaders parsed) (appendStatus e (ascii ''Parsing CSV file...'') s) of
        (s2, Normal) \<Rightarrow> bulkInsert e (parseData parsed) s2
      | (s2, c) \<Rightarrow> (s2, c))"
  using assms by (auto simp: parsesTo_def uploadBlock_def Let_def)

lemma uploadBlock_halted:
  assumes "parsesTo e parsed" and "\<not> hasRequiredField parsed"
  shows "uploadBlock e s = (fst (preflight e (csvHeaders parsed) (appendStatus e (ascii ''Parsing CSV file...'') s)), Return)"
proof -
  from assms(2) have "requiredField \<notin> set (fst (scanHeaders (csvHeaders parsed) ([], [])))"
    by (simp add: hasRequiredField_def required_scanned)
  then have "snd (preflight e (csvHeaders parsed) (appendStatus e (ascii ''Parsing CSV file...'') s)) = Return"
    by (rule preflight_halted)
  then show ?thesis
    by (cases "preflight e (csvHeaders parsed) (appendStatus e (ascii ''Parsing CSV file...'') s)")
       (simp add: uploadBlock_parsed [OF assms(1)])
qed

lemma uploadBlock_inserting:
  assumes "parsesTo e parsed" and "hasRequiredField parsed"
  shows "uploadBlock e s =
     bulkInsert e (parseData parsed)
       (fst (preflight e (csvHeaders parsed) (appendStatus e (ascii ''Parsing CSV file...'') s)))"
proof -
  from assms(2) have "requiredField \<in> set (fst (scanHeaders (csvHeaders parsed) ([], [])))"
    by (simp add: hasRequiredField_def required_scanned)
  then have "snd (preflight e (csvHeaders parsed) (appendStatus e (ascii ''Parsing CSV file...'') s)) = Normal"
    by (simp add: preflight_completion)
  then show ?thesis
    by (cases "preflight e (csvHeaders parsed) (appendStatus e (ascii ''Parsing CSV file...'') s)")
       (simp add: uploadBlock_parsed [OF assms(1)])
qed

lemma uploadBlock_unfolded:
  "(\<exists>err. fileText e = Inl err \<and> uploadBlock e s = (appendStatus e (ascii ''Parsing CSV file...'') s, Throw err))
   \<or> (\<exists>text message rest. fileText e = Inr text \<and> parseErrors (papaParse e text) = message # rest
        \<and> uploadBlock e s =
            (setIsTraining False
               (appendStatus e ([0x274C] @ ascii '' CSV parse error: '' @ message)
                  (appendStatus e (ascii ''Parsing CSV file...'') s)), Return))
   \<or> (\<exists>parsed. parsesTo e parsed \<and> \<not> hasRequiredField parsed
        \<and> uploadBlock e s = (fst (preflight e (csvHeaders parsed) (appendStatus e (ascii ''Parsing CSV file...'') s)), Return))
   \<or> (\<exists>parsed. parsesTo e parsed \<and> hasRequiredField parsed
        \<and> uploadBlock e s = bulkInsert e (parseData parsed)
             (fst (preflight e (csvHeaders parsed) (appendStatus e (ascii ''Parsing CSV file...'') s))))"
proof (cases "fileText e")
  case (Inl err)
  then show ?thesis by (simp add: uploadBlock_def Let_def)
next
  case (Inr content)
  show ?thesis
  proof (cases "parseErrors (papaParse e content)")
    case Nil
    with Inr have p: "parsesTo e (papaParse e content)" by (simp add: parsesTo_def)
    show ?thesis
    proof (cases "hasRequiredField (papaParse e content)")
      case True
      with p uploadBlock_inserting [OF p True, of s] show ?thesis by blast
    next
      case False
      with p uploadBlock_halted [OF p False, of s] show ?thesis by blast
    qed
  next
    case (Cons message rest)
    with Inr show ?thesis by (simp add: uploadBlock_def Let_def)
  qed
qed

lemma uploadBlock_appendsOnly: "appendsOnly s (fst (uploadBlock e s))"
proof -
  have p: "appendsOnly s (fst (preflight e hs (appendStatus e m s)))" for hs m
    by (rule appendsOnly_trans [OF _ preflight_appendsOnly]) auto
  have b: "appendsOnly s (fst (bulkInsert e rows (fst (preflight e hs (appendStatus e m s)))))" for hs m rows
    by (rule appendsOnly_trans [OF p bulkInsert_appendsOnly])
  from uploadBlock_unfolded [of e s] show ?thesis
    by (elim disjE exE conjE) (auto simp: p b)
qed

lemma uploadCatch_appendsOnly: "appendsOnly s (fst (uploadCatch e err s))"
  by (auto simp: uploadCatch_def)

lemma upload_appendsOnly: "appendsOnly s (fst (tryCatch (uploadBlock e) (uploadCatch e) s))"
  by (rule appendsOnly_tryCatch [OF uploadBlock_appendsOnly uploadCatch_appendsOnly])

text \<open>The network operations of the first \<open>try\<close> block: none, or the one insert.\<close>

lemma uploadBlock_network:
  "network (fst (uploadBlock e s)) = network s
   \<or> (\<exists>rows. network (fst (uploadBlock e s)) = network s @ [SupabaseInsert rows])"
  using uploadBlock_unfolded [of e s]
  by (elim disjE exE conjE) simp_all

lemma uploadCatch_fields [simp]:
  "snd (uploadCatch e err s) = Return"
  "network (fst (uploadCatch e err s)) = network s"
  "isTraining (fst (uploadCatch e err s)) = False"
  by (simp_all add: uploadCatch_def)

lemma upload_network:
  "network (fst (tryCatch (uploadBlock e) (uploadCatch e) s)) = network s
   \<or> (\<exists>rows. network (fst (tryCatch (uploadBlock e) (uploadCatch e) s)) = network s @ [SupabaseInsert rows])"
proof (cases rule: tryCatch_cases [of "uploadBlock e" s "uploadCatch e"])
  case (1 s1 err)
  with uploadBlock_network [of e s] show ?thesis by simp
next
  case (2 s1 c)
  with uploadBlock_network [of e s] show ?thesis by simp
qed


subsection \<open>The second \<open>try\<close> block\<close>

lemma trainingBlock_throws:
  assumes "trainingFailure (fetchTrain e formData) = Some err"
  shows "trainingBlock e formData s
           = (if completeBeforeFailure (fetchTrain e formData)
              then appendStatus e completeNotice
                     (perform (TrainPost formData) (appendStatus e uploadingNotice s))
              else perform (TrainPost formData) (appendStatus e uploadingNotice s),
              Throw err)"
  using assms
  by (auto simp: trainingBlock_def trainingFailure_def completeBeforeFailure_def Let_def
                 uploadingNotice_def completeNotice_def
           split: fetch_result.splits body.splits if_splits)

text \<open>
  A success status with the body \<open>null\<close>: the entry of the completed training is appended,
  and then reading \<open>metrics_json\<close> throws.
\<close>

lemma trainingBlock_null_body:
  assumes "fetchTrain e formData = FetchResponse True (BodyNull readThrows)"
  shows "trainingBlock e formData s
           = (appendStatus e completeNotice
                (perform (TrainPost formData) (appendStatus e uploadingNotice s)),
              Throw (readThrows (ascii ''metrics_json'')))"
  using assms
  by (simp add: trainingBlock_def Let_def uploadingNotice_def completeNotice_def)

lemma trainingBlock_completes:
  assumes "trainingFailure (fetchTrain e formData) = None"
  shows "snd (trainingBlock e formData s) = Normal"
  using assms
  by (auto simp: trainingBlock_def trainingFailure_def Let_def
           split: fetch_result.splits body.splits if_splits option.splits)

lemma trainingBlock_network [simp]:
  "network (fst (trainingBlock e formData s)) = network s @ [TrainPost formData]"
  by (simp add: trainingBlock_def Let_def split: fetch_result.splits body.splits option.splits)

lemma trainingBlock_appendsOnly: "appendsOnly s (fst (trainingBlock e formData s))"
  by (auto simp: trainingBlock_def Let_def split: fetch_result.splits body.splits option.splits)

lemma trainingCatch_fields [simp]:
  "snd (trainingCatch e err s) = Normal"
  "network (fst (trainingCatch e err s)) = network s"
  by (simp_all add: trainingCatch_def)

lemma trainingCatch_appendsOnly: "appendsOnly s (fst (trainingCatch e err s))"
  by (auto simp: trainingCatch_def)

lemma trainingStage_fields [simp]:
  "network (fst (trainingStage e formData s)) = network s @ [TrainPost formData]"
  "isTraining (fst (trainingStage e formData s)) = False"
proof -
  show "network (fst (trainingStage e formData s)) = network s @ [TrainPost formData]"
  proof (cases rule: tryCatch_cases [of "trainingBlock e formData" s "trainingCatch e"])
    case (1 s1 err)
    with trainingBlock_network [of e formData s] trainingCatch_fields(2) [of e err s1] show ?thesis
      by (cases "trainingCatch e err s1") (simp add: trainingStage_def tryFinally_def)
  next
    case (2 s1 c)
    with trainingBlock_network [of e formData s] show ?thesis
      by (simp add: trainingStage_def tryFinally_def split: prod.splits)
  qed
  show "isTraining (fst (trainingStage e formData s)) = False"
    by (simp add: trainingStage_def tryFinally_def split: prod.splits)
qed

lemma trainingStage_appendsOnly: "appendsOnly s (fst (trainingStage e formData s))"
proof -
  have "appendsOnly s (fst (tryCatch (trainingBlock e formData) (trainingCatch e) s))"
    by (rule appendsOnly_tryCatch [OF trainingBlock_appendsOnly trainingCatch_appendsOnly])
  then show ?thesis
    by (auto simp: trainingStage_def tryFinally_def split: prod.splits)
qed


text \<open>What the \<open>catch\<close> and the \<open>finally\<close> make of an error thrown in the training call.\<close>

lemma trainingStage_caught:
  assumes "trainingBlock e formData s = (s1, Throw err)"
  shows "trainingStage e formData s =
     (setIsTraining False
        (if errorMessage err = ascii ''Failed to fetch'' then s1
         else appendStatus e (trainingError (errorMessage err)) s1),
      Normal)"
  using assms
  by (simp add: trainingStage_def tryFinally_def tryCatch_def trainingCatch_def trainingError_def)

section \<open>The handler\<close>

lemma handle_no_file:
  "selectedFile s = None \<Longrightarrow>
     handleStartTraining e s = (appendStatus e (ascii ''Error: Please select a file first'') s, Return)"
  by (simp add: handleStartTraining_def)

lemma handle_file:
  "selectedFile s = Some f \<Longrightarrow>
     handleStartTraining e s =
       (case tryCatch (uploadBlock e) (uploadCatch e) (started e s) of
          (s2, Normal) \<Rightarrow> trainingStage e (formOf e s f) s2
        | (s2, c) \<Rightarrow> (s2, c))"
  unfolding handleStartTraining_def started_def formOf_def Let_def by simp

lemma handle_returned:
  assumes "selectedFile s = Some f"
    and "tryCatch (uploadBlock e) (uploadCatch e) (started e s) = (s2, Return)"
  shows "handleStartTraining e s = (s2, Return)"
  using assms by (simp add: handle_file)

lemma handle_trained:
  assumes "selectedFile s = Some f"
    and "tryCatch (uploadBlock e) (uploadCatch e) (started e s) = (s2, Normal)"
  shows "handleStartTraining e s = trainingStage e (formOf e s f) s2"
  using assms by (simp add: handle_file)


text \<open>
  The network operations of a run: a beginning of the sequence "one bulk insert, one
  request to the training endpoint", so that neither is ever done twice.
\<close>

lemma handle_network:
  "\<exists>ops rows. network (fst (handleStartTraining e s)) = network s @ ops
     \<and> prefix ops [SupabaseInsert rows, TrainPost (formOf e s (the (selectedFile s)))]"
proof (cases "selectedFile s")
  case None
  then have "network (fst (handleStartTraining e s)) = network s @ []"
    by (simp add: handle_no_file)
  then show ?thesis by (metis Nil_prefix)
next
  case (Some f)
  show ?thesis
  proof (cases "tryCatch (uploadBlock e) (uploadCatch e) (started e s)")
    case (Pair s2 c)
    from upload_network [of e "started e s"] Pair
    consider "network s2 = network s" | rows where "network s2 = network s @ [SupabaseInsert rows]"
      by auto
    then show ?thesis
    proof cases
      case 1
      have "c \<noteq> Normal"
      proof
        assume "c = Normal"
        with Pair have "uploadBlock e (started e s) = (s2, Normal)"
          by (cases rule: tryCatch_cases [of "uploadBlock e" "started e s" "uploadCatch e"])
             (use uploadCatch_fields(1) in \<open>auto simp: prod_eq_iff\<close>)
        with uploadBlock_unfolded [of e "started e s"] 1 show False
          by (elim disjE exE conjE)
             (use preflight_completion in \<open>auto simp: prod_eq_iff dest!: arg_cong [where f = network]\<close>)
      qed
      with Pair 1 have "network (fst (handleStartTraining e s)) = network s @ []"
        by (cases c) (simp_all add: handle_file [OF Some])
      then show ?thesis by (metis Nil_prefix)
    next
      case 2
      show ?thesis
      proof (cases "c = Normal")
        case True
        with Pair 2 Some have "network (fst (handleStartTraining e s))
            = network s @ [SupabaseInsert rows, TrainPost (formOf e s (the (selectedFile s)))]"
          by (simp add: handle_file)
        then show ?thesis by (metis prefix_order.order_refl)
      next
        case False
        with Pair 2 have "network (fst (handleStartTraining e s)) = network s @ [SupabaseInsert rows]"
          by (cases c) (simp_all add: handle_file [OF Some])
        then show ?thesis by (metis Cons_prefix_Cons Nil_prefix)
      qed
    qed
  qed
qed

section \<open>Runs of the handler\<close>

subsection \<open>The paths through the first \<open>try\<close> block\<close>

lemma upload_halted:
  assumes "parsesTo e parsed" and "\<not> hasRequiredField parsed"
  shows "\<exists>s' earlier t1 t2. tryCatch (uploadBlock e) (uploadCatch e) s = (s', Return)
           \<and> trainingStatus s' = earlier @ [statusEntry t1 criticalError, statusEntry t2 criticalAdvice]
           \<and> isTraining s' = False \<and> network s' = network s"
proof -
  let ?p = "preflight e (csvHeaders parsed) (appendStatus e (ascii ''Parsing CSV file...'') s)"
  from assms(2) have n: "requiredField \<notin> set (fst (scanHeaders (csvHeaders parsed) ([], [])))"
    by (simp add: hasRequiredField_def required_scanned)
  have "tryCatch (uploadBlock e) (uploadCatch e) s = (fst ?p, Return)"
    by (simp add: tryCatch_Return uploadBlock_halted [OF assms])
  moreover from preflight_halted(3) [OF n] obtain earlier t1 t2 where
    "trainingStatus (fst ?p) = earlier @ [statusEntry t1 criticalError, statusEntry t2 criticalAdvice]"
    by blast
  moreover have "isTraining (fst ?p) = False"
    by (rule preflight_halted(2) [OF n])
  moreover have "network (fst ?p) = network s"
    by simp
  ultimately show ?thesis by blast
qed


lemma upload_accepted:
  assumes "parsesTo e parsed" and "hasRequiredField parsed"
    and "supabaseInsert e (rowsToInsert parsed) = InsertReturns None"
  shows "\<exists>s' earlier t. tryCatch (uploadBlock e) (uploadCatch e) s = (s', Normal)
           \<and> trainingStatus s' = earlier @ [statusEntry t insertSuccess]
           \<and> isTraining s' = isTraining s
           \<and> network s' = network s @ [SupabaseInsert (rowsToInsert parsed)]"
proof -
  let ?q = "preflight e (csvHeaders parsed) (appendStatus e (ascii ''Parsing CSV file...'') s)"
  let ?b = "bulkInsert e (parseData parsed) (fst ?q)"
  from assms(3) have i: "supabaseInsert e (map rowToInsert (parseData parsed)) = InsertReturns None"
    by (simp add: rowsToInsert_def)
  from assms(2) have "requiredField \<in> set (fst (scanHeaders (csvHeaders parsed) ([], [])))"
    by (simp add: hasRequiredField_def required_scanned)
  then have q: "snd ?q = Normal"
    by (simp add: preflight_completion)
  have u: "uploadBlock e s = ?b"
    by (rule uploadBlock_inserting [OF assms(1,2)])
  have "snd ?b = Normal"
    by (rule bulkInsert_accepted(1) [OF i])
  with u have "tryCatch (uploadBlock e) (uploadCatch e) s = (fst ?b, Normal)"
    by (cases ?b) (simp add: tryCatch_def)
  moreover from bulkInsert_accepted(4) [OF i] obtain earlier t where
    "trainingStatus (fst ?b) = earlier @ [statusEntry t insertSuccess]"
    by blast
  moreover have "isTraining (fst ?b) = isTraining s"
    using bulkInsert_accepted(2) [OF i, of "fst ?q"] preflight_passed(1) [OF q] by simp
  moreover have "network (fst ?b) = network s @ [SupabaseInsert (rowsToInsert parsed)]"
    by (simp add: rowsToInsert_def)
  ultimately show ?thesis by blast
qed

subsection \<open>A failed training call after a successful insert\<close>

lemma handle_training_failed:
  assumes "selectedFile s = Some f" and "parsesTo e parsed" and "hasRequiredField parsed"
    and "supabaseInsert e (rowsToInsert parsed) = InsertReturns None"
    and "trainingFailure (fetchTrain e (formOf e s f)) = Some err"
  shows "\<exists>s' earlier t1 t2 t3 t4. handleStartTraining e s = (s', Normal)
           \<and> isTraining s' = False
           \<and> network s' = network s @ [SupabaseInsert (rowsToInsert parsed), TrainPost (formOf e s f)]
           \<and> trainingStatus s' =
               earlier @ [statusEntry t1 insertSuccess, statusEntry t2 uploadingNotice]
                 @ (if completeBeforeFailure (fetchTrain e (formOf e s f))
                    then [statusEntry t3 completeNotice] else [])
                 @ (if errorMessage err = ascii ''Failed to fetch'' then []
                    else [statusEntry t4 (trainingError (errorMessage err))])"
proof -
  from upload_accepted [OF assms(2,3,4), of "started e s"] obtain s2 earlier t1 where
    u: "tryCatch (uploadBlock e) (uploadCatch e) (started e s) = (s2, Normal)"
    and l: "trainingStatus s2 = earlier @ [statusEntry t1 insertSuccess]"
    and n: "network s2 = network s @ [SupabaseInsert (rowsToInsert parsed)]"
    by auto
  let ?r = "fetchTrain e (formOf e s f)"
  let ?s3 = "perform (TrainPost (formOf e s f)) (appendStatus e uploadingNotice s2)"
  let ?s3' = "if completeBeforeFailure ?r then appendStatus e completeNotice ?s3 else ?s3"
  let ?s4 = "setIsTraining False
               (if errorMessage err = ascii ''Failed to fetch'' then ?s3'
                else appendStatus e (trainingError (errorMessage err)) ?s3')"
  have "handleStartTraining e s = trainingStage e (formOf e s f) s2"
    by (rule handle_trained [OF assms(1) u])
  also have "\<dots> = (?s4, Normal)"
    by (rule trainingStage_caught [OF trainingBlock_throws [OF assms(5)]])
  finally have h: "handleStartTraining e s = (?s4, Normal)" .
  have "isTraining ?s4 = False" by simp
  moreover have "network ?s4 = network s @ [SupabaseInsert (rowsToInsert parsed), TrainPost (formOf e s f)]"
    by (simp add: n)
  moreover have "trainingStatus ?s4 =
      earlier @ [statusEntry t1 insertSuccess, statusEntry (clock e (ticks s2)) uploadingNotice]
        @ (if completeBeforeFailure ?r
           then [statusEntry (clock e (Suc (ticks s2))) completeNotice] else [])
        @ (if errorMessage err = ascii ''Failed to fetch'' then []
           else [statusEntry (clock e (ticks ?s3')) (trainingError (errorMessage err))])"
    by (simp add: l)
  ultimately show ?thesis using h by blast
qed

subsection \<open>The updates of the status log\<close>

lemma handle_log_with_file:
  assumes "selectedFile s = Some f"
  shows "\<exists>entries. statusOps (fst (handleStartTraining e s)) = statusOps s @ Clear # map Append entries
           \<and> trainingStatus (fst (handleStartTraining e s)) = entries
           \<and> (\<forall>entry \<in> set entries. \<exists>stamp message. entry = statusEntry stamp message)"
proof -
  let ?base = "setMetricsJson None (setTrainingStatusEmpty (setIsTraining True s))"
  have st: "appendsOnly ?base (started e s)"
    unfolding started_def by (rule appendsOnly_appendStatus) simp
  have "appendsOnly ?base (fst (handleStartTraining e s))"
  proof (cases "tryCatch (uploadBlock e) (uploadCatch e) (started e s)")
    case (Pair s2 c)
    with upload_appendsOnly [of "started e s" e] have a: "appendsOnly (started e s) s2"
      by simp
    show ?thesis
    proof (cases "c = Normal")
      case True
      with Pair have "handleStartTraining e s = trainingStage e (formOf e s f) s2"
        by (simp add: handle_trained [OF assms])
      with a st trainingStage_appendsOnly [of s2 e "formOf e s f"] show ?thesis
        by (metis appendsOnly_trans)
    next
      case False
      with Pair have "handleStartTraining e s = (s2, c)"
        by (cases c) (simp_all add: handle_file [OF assms])
      with a st show ?thesis
        by (metis appendsOnly_trans fst_conv)
    qed
  qed
  then show ?thesis
    by (auto simp: appendsOnly_def)
qed

lemma logAfter_appends: "logAfter (map Append entries) l = l @ entries"
  by (induction entries arbitrary: l) simp_all

lemma logAfter_cleared:
  "0 < n \<Longrightarrow> logAfter (take n (Clear # map Append entries)) l = take (n - 1) entries"
  by (cases n) (simp_all add: take_map logAfter_appends)

lemma take_prefix_take: "n \<le> m \<Longrightarrow> prefix (take n xs) (take m xs)"
proof -
  assume "n \<le> m"
  then have "take n xs = take n (take m xs)" by (simp add: min_def)
  then show ?thesis by (metis take_is_prefix)
qed

section \<open>The claims about the handler\<close>

lemma world_fields [simp]:
  "clock (worldWith content hs rows i r) n = noon"
  "fileText (worldWith content hs rows i r) = Inr content"
  "papaParse (worldWith content hs rows i r) given = parsedWith hs rows"
  "supabaseInsert (worldWith content hs rows i r) rs = i"
  "fetchTrain (worldWith content hs rows i r) fd = r"
  "form (worldWith content hs rows i r) = defaultForm"
  by (simp_all add: worldWith_def)

lemma parsedWith_fields [simp]:
  "parseErrors (parsedWith hs rows) = []"
  "parseData (parsedWith hs rows) = rows"
  "csvHeaders (parsedWith hs rows) = hs"
  by (simp_all add: parsedWith_def csvHeaders_def)

lemma world_parses [simp]: "parsesTo (worldWith content hs rows i r) (parsedWith hs rows)"
  by (simp add: parsesTo_def)

lemma koiWorld_fields [simp]:
  "clock (koiWorld i r) n = noon"
  "papaParse (koiWorld i r) given = parsedWith koiHeaders [koiRow]"
  "supabaseInsert (koiWorld i r) rs = i"
  "fetchTrain (koiWorld i r) fd = r"
  "form (koiWorld i r) = defaultForm"
  "parsesTo (koiWorld i r) (parsedWith koiHeaders [koiRow])"
  by (simp_all add: koiWorld_def)

lemma koiWorld_fileText:
  "fileText (koiWorld i r) = Inr (ascii ''koi_teq,ra'' @ [0x0A] @ ascii ''300,291.93'')"
  by (simp add: koiWorld_def)

lemma raWorld_parses [simp]: "parsesTo raWorld (parsedWith raHeaders [raRow])"
  by (simp add: raWorld_def)

lemma idle_fields [simp]:
  "selectedFile (idleState chosen) = chosen"
  "trainTestSplit (idleState chosen) = 80"
  "network (idleState chosen) = []"
  "statusOps (idleState chosen) = []"
  "ticks (idleState chosen) = 0"
  "isTraining (idleState chosen) = False"
  "trainingStatus (idleState chosen) = [statusEntry noon (ascii ''Error: Please select a file first'')]"
  by (simp_all add: idleState_def)

lemma koi_has_required [simp]: "hasRequiredField (parsedWith koiHeaders rows)"
  by (simp add: hasRequiredField_def requiredField_def koiHeaders_def lookup_examples)

lemma message_examples:
  "ascii ''Found '' @ showNat (Suc (Suc 0)) @ ascii '' columns. Mapped '' @ showNat (Suc (Suc 0)) @ ascii ''.''
     = ascii ''Found 2 columns. Mapped 2.''"
  "ascii ''Mapped '' @ showNat (Suc 0) @ ascii '' rows. Uploading to Supabase...''
     = ascii ''Mapped 1 rows. Uploading to Supabase...''"
  by (simp_all add: ascii_def showNat.simps)

lemmas run_eval = handleStartTraining_def tryCatch_def uploadBlock_def preflight_def bulkInsert_def
  trainingStage_def tryFinally_def trainingBlock_def trainingCatch_def errorMessage_def
  errorOrUnknown_def failedToFetch_def Let_def lookup_examples requiredField_def message_examples
  logUpToRequest_def insertSuccess_def uploadingNotice_def koiHeaders_def koiWorld_fileText

text \<open>No character of ASCII text is the cross mark, and every error entry contains it.\<close>

lemma crossMark_not_ascii: "crossMark \<notin> set (ascii a)"
proof
  assume "crossMark \<in> set (ascii a)"
  then obtain c where "crossMark = (of_char c :: 16 word)"
    by (auto simp: ascii_def)
  then have "unat crossMark = unat (of_char c :: 16 word)"
    by (rule arg_cong)
  then have "unat crossMark = (of_char c :: nat)"
    by (simp only: unat_of_char)
  moreover have "(of_char c :: nat) < 256"
    by (rule nat_of_char_less_256)
  ultimately have "unat crossMark < 256"
    by (simp only:)
  then show False
    by (simp add: crossMark_def)
qed

lemma crossMark_in_trainingError: "crossMark \<in> set (statusEntry t (trainingError m))"
  by (simp add: statusEntry_def trainingError_def crossMark_def)

lemma crossMark_not_in_logUpToRequest: "crossMark \<notin> set (concat logUpToRequest)"
  by (simp add: logUpToRequest_def statusEntry_def noon_def insertSuccess_def uploadingNotice_def
        crossMark_not_ascii)
     (simp add: crossMark_def)

text \<open>
  A run in which the endpoint answers with a success status and the body \<open>null\<close>: the log
  holds the entry of the completed training and then the entry of the error thrown by
  reading \<open>metrics_json\<close>.
\<close>

lemma null_body_run:
  "trainingStatus (fst (handleStartTraining
       (koiWorld (InsertReturns None)
          (FetchResponse True (BodyNull (\<lambda>name. ErrorObject (ascii ''Cannot read properties of null'')))))
       (idleState (Some koiFile))))
     = logUpToRequest
         @ [statusEntry noon completeNotice,
            statusEntry noon (trainingError (ascii ''Cannot read properties of null''))]"
  by (simp add: run_eval completeNotice_def trainingError_def)

text \<open>
  C1. When the file has been read and parsed without errors and no header of it is, after
  normalization, an alias of \<open>equilibrium_temp_K\<close>, the handler appends the two messages of
  the critical error as the last entries of the log, sets \<open>isTraining\<close> to false and
  returns, and it has performed no network operation: neither the bulk insert nor the
  request to the training endpoint.
\<close>

theorem C1_missing_required_field_halts_before_network:
  assumes "selectedFile s = Some f"
    and "parsesTo e parsed"
    and "\<forall>h \<in> set (csvHeaders parsed). headerLookup h \<noteq> Some (Column (ascii ''equilibrium_temp_K''))"
  shows "\<exists>s' earlier t1 t2. handleStartTraining e s = (s', Return)
           \<and> trainingStatus s' = earlier @ [statusEntry t1 criticalError, statusEntry t2 criticalAdvice]
           \<and> isTraining s' = False
           \<and> network s' = network s"
proof -
  from assms(3) have "\<not> hasRequiredField parsed"
    by (simp add: hasRequiredField_def requiredField_def)
  from upload_halted [OF assms(2) this, of "started e s"] obtain s' earlier t1 t2 where
    "tryCatch (uploadBlock e) (uploadCatch e) (started e s) = (s', Return)"
    "trainingStatus s' = earlier @ [statusEntry t1 criticalError, statusEntry t2 criticalAdvice]"
    "isTraining s' = False" "network s' = network s"
    by auto
  with handle_returned [OF assms(1)] show ?thesis by blast
qed

theorem C1_missing_required_field_witness:
  "selectedFile (idleState (Some koiFile)) = Some koiFile
   \<and> parsesTo raWorld (parsedWith raHeaders [raRow])
   \<and> headerLookup (ascii ''ra'') \<noteq> Some (Column (ascii ''equilibrium_temp_K''))
   \<and> headerLookup (ascii ''dec'') \<noteq> Some (Column (ascii ''equilibrium_temp_K''))
   \<and> snd (handleStartTraining raWorld (idleState (Some koiFile))) = Return
   \<and> isTraining (fst (handleStartTraining raWorld (idleState (Some koiFile)))) = False
   \<and> network (fst (handleStartTraining raWorld (idleState (Some koiFile)))) = []"
proof -
  have h: "headerLookup (ascii ''ra'') \<noteq> Some (Column (ascii ''equilibrium_temp_K''))"
          "headerLookup (ascii ''dec'') \<noteq> Some (Column (ascii ''equilibrium_temp_K''))"
    by (simp_all add: lookup_examples)
  then have "\<forall>h \<in> set (csvHeaders (parsedWith raHeaders [raRow])).
               headerLookup h \<noteq> Some (Column (ascii ''equilibrium_temp_K''))"
    by (simp add: raHeaders_def)
  from C1_missing_required_field_halts_before_network
         [of "idleState (Some koiFile)" koiFile raWorld, OF _ raWorld_parses this] h
  show ?thesis by auto
qed






text \<open>
  C6, as the code has it. When the bulk insert succeeds and the training endpoint answers
  with a status that is not a success, the run ends normally with \<open>isTraining\<close> false. The
  log then holds the entry of the successful insert, the notice that the request was
  started and, as its last entry, the entry of the training error, whose message is the
  \<open>error\<close> field of the body, or \<open>Unknown error occurred\<close> when that is falsy, or the message
  of what reading the body threw. But when that message is exactly \<open>Failed to fetch\<close> no
  entry is appended for the error: the log ends with the notice.
\<close>

theorem C6_training_error_after_successful_insert:
  assumes "selectedFile s = Some f" and "parsesTo e parsed" and "hasRequiredField parsed"
    and "supabaseInsert e (rowsToInsert parsed) = InsertReturns None"
    and "fetchTrain e (formOf e s f) = FetchResponse False b"
  shows "\<exists>s' earlier t1 t2 t3. handleStartTraining e s = (s', Normal)
           \<and> isTraining s' = False
           \<and> trainingStatus s' =
                earlier @ [statusEntry t1 insertSuccess, statusEntry t2 uploadingNotice]
                  @ (if responseMessage b = ascii ''Failed to fetch'' then []
                     else [statusEntry t3 (trainingError (responseMessage b))])"
proof -
  obtain err where t: "trainingFailure (fetchTrain e (formOf e s f)) = Some err"
    and m: "errorMessage err = responseMessage b"
    using assms(5)
    by (cases b) (simp_all add: trainingFailure_def responseMessage_def errorMessage_def)
  have c: "\<not> completeBeforeFailure (fetchTrain e (formOf e s f))"
    using assms(5) by (cases b) (simp_all add: completeBeforeFailure_def)
  from handle_training_failed [OF assms(1-4) t, unfolded m] c obtain s' earlier t1 t2 t4 where
    "handleStartTraining e s = (s', Normal)" "isTraining s' = False"
    "trainingStatus s' =
       earlier @ [statusEntry t1 insertSuccess, statusEntry t2 uploadingNotice]
         @ (if responseMessage b = ascii ''Failed to fetch'' then []
            else [statusEntry t4 (trainingError (responseMessage b))])"
    by auto
  then show ?thesis by blast
qed

theorem C6_training_error_witness:
  "selectedFile (idleState (Some koiFile)) = Some koiFile
   \<and> hasRequiredField (parsedWith koiHeaders [koiRow])
   \<and> responseMessage (BodyJson ErrorFalsy None) = ascii ''Unknown error occurred''
   \<and> (\<exists>s' earlier t1 t2 t3. handleStartTraining
         (koiWorld (InsertReturns None)
            (FetchResponse False (BodyJson ErrorFalsy None)))
         (idleState (Some koiFile)) = (s', Normal)
       \<and> isTraining s' = False
       \<and> trainingStatus s' =
            earlier @ [statusEntry t1 insertSuccess, statusEntry t2 uploadingNotice,
                       statusEntry t3 (trainingError (ascii ''Unknown error occurred''))])"
proof -
  let ?e = "koiWorld (InsertReturns None)
              (FetchResponse False (BodyJson ErrorFalsy None))"
  have m: "responseMessage (BodyJson ErrorFalsy None) = ascii ''Unknown error occurred''"
    by (simp add: responseMessage_def errorOrUnknown_def)
  have n: "ascii ''Unknown error occurred'' \<noteq> ascii ''Failed to fetch''"
    by (simp add: ascii_inject)
  from C6_training_error_after_successful_insert
         [of "idleState (Some koiFile)" koiFile ?e "parsedWith koiHeaders [koiRow]"
             "BodyJson ErrorFalsy None"] m n
  show ?thesis by simp
qed

text \<open>
  The claim as stated fails: the insert succeeds, the endpoint answers with a status that
  is not a success and a body whose \<open>error\<close> field is \<open>Failed to fetch\<close>, and the log of the
  finished run has no entry of a training error: it ends with the notice that the request
  was started, and the cross mark occurs nowhere in it.
\<close>

theorem C6_error_field_failed_to_fetch_is_not_logged:
  "responseMessage (BodyJson (ErrorTruthy (ascii ''Failed to fetch'')) None) = ascii ''Failed to fetch''
   \<and> trainingStatus (fst (handleStartTraining
       (koiWorld (InsertReturns None)
          (FetchResponse False (BodyJson (ErrorTruthy (ascii ''Failed to fetch'')) None)))
       (idleState (Some koiFile)))) = logUpToRequest
   \<and> isTraining (fst (handleStartTraining
       (koiWorld (InsertReturns None)
          (FetchResponse False (BodyJson (ErrorTruthy (ascii ''Failed to fetch'')) None)))
       (idleState (Some koiFile)))) = False
   \<and> crossMark \<notin> set (concat logUpToRequest)"
proof (intro conjI)
  show "crossMark \<notin> set (concat logUpToRequest)"
    by (rule crossMark_not_in_logUpToRequest)
qed (simp_all add: responseMessage_def run_eval)

text \<open>
  C8. The multipart form has exactly nine entries: the file and the eight named
  hyperparameters, in this order. The entry \<open>train_test_split\<close> is \<open>trainTestSplit / 100\<close>,
  which for a value of the slider (an integer from 50 to 90) lies between 0.5 and 0.9, so
  strictly between 0 and 1. Every request that a run of the handler makes to the training
  endpoint carries this form, built from the selected file, the value of the slider and
  the inputs of the form.
\<close>

theorem C8_training_form:
  "map fst (buildFormData f split inputs)
     = map ascii [''file'', ''train_test_split'', ''cv_folds'', ''rf_estimators'', ''xgb_estimators'',
                  ''lgbm_estimators'', ''xgb_max_depth'', ''lgbm_max_depth'', ''learning_rate'']
   \<and> map_of (buildFormData f split inputs) (ascii ''file'') = Some (FileEntry f)
   \<and> map_of (buildFormData f split inputs) (ascii ''train_test_split'')
       = Some (NumberText (of_int split / 100))
   \<and> (50 \<le> split \<and> split \<le> 90 \<longrightarrow>
        (1 / 2 :: rat) \<le> of_int split / 100 \<and> (of_int split / 100 :: rat) \<le> 9 / 10
        \<and> (0 :: rat) < of_int split / 100 \<and> (of_int split / 100 :: rat) < 1)
   \<and> (network (fst (handleStartTraining e s)) = network s @ ops \<and> TrainPost formData \<in> set ops \<longrightarrow>
        (\<exists>chosen. selectedFile s = Some chosen
           \<and> formData = buildFormData chosen (trainTestSplit s) (form e)))"
proof (intro conjI impI)
  show "map fst (buildFormData f split inputs)
     = map ascii [''file'', ''train_test_split'', ''cv_folds'', ''rf_estimators'', ''xgb_estimators'',
                  ''lgbm_estimators'', ''xgb_max_depth'', ''lgbm_max_depth'', ''learning_rate'']"
    by (simp add: buildFormData_def)
  show "map_of (buildFormData f split inputs) (ascii ''file'') = Some (FileEntry f)"
    by (simp add: buildFormData_def)
  show "map_of (buildFormData f split inputs) (ascii ''train_test_split'')
       = Some (NumberText (of_int split / 100))"
    by (simp add: buildFormData_def ascii_inject)
next
  assume "50 \<le> split \<and> split \<le> 90"
  then have "(50 :: rat) \<le> of_int split" and "(of_int split :: rat) \<le> 90"
    by (simp_all add: of_int_le_iff [where 'a = rat and w = 50, simplified]
                      of_int_le_iff [where 'a = rat and z = 90, simplified])
  then show "(1 / 2 :: rat) \<le> of_int split / 100" and "(of_int split / 100 :: rat) \<le> 9 / 10"
    and "(0 :: rat) < of_int split / 100" and "(of_int split / 100 :: rat) < 1"
    by simp_all
next
  assume a: "network (fst (handleStartTraining e s)) = network s @ ops \<and> TrainPost formData \<in> set ops"
  from handle_network [of e s] obtain ops' rows where
    n: "network (fst (handleStartTraining e s)) = network s @ ops'"
    and p: "prefix ops' [SupabaseInsert rows, TrainPost (formOf e s (the (selectedFile s)))]"
    by blast
  from a n have "ops' = ops" by simp
  with p a have "TrainPost formData \<in> set [SupabaseInsert rows, TrainPost (formOf e s (the (selectedFile s)))]"
    by (meson set_mono_prefix subsetD)
  then have fd: "formData = formOf e s (the (selectedFile s))" by simp
  have "selectedFile s \<noteq> None"
  proof
    assume "selectedFile s = None"
    with a show False by (auto simp: handle_no_file)
  qed
  then obtain chosen where "selectedFile s = Some chosen" by blast
  with fd show "\<exists>chosen. selectedFile s = Some chosen
           \<and> formData = buildFormData chosen (trainTestSplit s) (form e)"
    by (simp add: formOf_def)
qed

theorem C8_training_form_witness:
  "(50 :: int) \<le> 80 \<and> (80 :: int) \<le> 90
   \<and> (1 / 2 :: rat) \<le> of_int 80 / 100 \<and> (of_int 80 / 100 :: rat) \<le> 9 / 10
   \<and> network (fst (handleStartTraining
        (koiWorld (InsertReturns None) (FetchThrows failedToFetch))
        (idleState (Some koiFile))))
       = network (idleState (Some koiFile))
           @ [SupabaseInsert (map rowToInsert [koiRow]), TrainPost (buildFormData koiFile 80 defaultForm)]
   \<and> TrainPost (buildFormData koiFile 80 defaultForm)
        \<in> set [SupabaseInsert (map rowToInsert [koiRow]), TrainPost (buildFormData koiFile 80 defaultForm)]
   \<and> (\<exists>chosen. selectedFile (idleState (Some koiFile)) = Some chosen
         \<and> buildFormData koiFile 80 defaultForm
             = buildFormData chosen (trainTestSplit (idleState (Some koiFile)))
                 (form (koiWorld (InsertReturns None) (FetchThrows failedToFetch))))"
proof -
  let ?e = "koiWorld (InsertReturns None) (FetchThrows failedToFetch)"
  have n: "network (fst (handleStartTraining ?e (idleState (Some koiFile))))
       = network (idleState (Some koiFile))
           @ [SupabaseInsert (map rowToInsert [koiRow]), TrainPost (buildFormData koiFile 80 defaultForm)]"
    by (simp add: run_eval)
  from C8_training_form
         [of koiFile 80 defaultForm ?e "idleState (Some koiFile)"
             "[SupabaseInsert (map rowToInsert [koiRow]), TrainPost (buildFormData koiFile 80 defaultForm)]"
             "buildFormData koiFile 80 defaultForm"] n
  show ?thesis by simp
qed

text \<open>
  C9, as the code has it. In a submission with a file selected the status log is cleared
  exactly once, by the first update, and every later update appends one timestamped entry
  at the end. In a submission with no file selected the log is not cleared: its one update
  appends the error entry to the log that earlier runs left. In both cases no entry is
  changed or removed after the first update: the log after any number of the updates,
  from the first on, is a beginning of the log after any greater number of them.
\<close>

theorem C9_log_cleared_then_append_only:
  "(selectedFile s \<noteq> None \<longrightarrow>
      (\<exists>entries. statusOps (fst (handleStartTraining e s)) = statusOps s @ Clear # map Append entries
         \<and> trainingStatus (fst (handleStartTraining e s)) = entries
         \<and> (\<forall>entry \<in> set entries. \<exists>stamp message. entry = statusEntry stamp message)))
   \<and> (selectedFile s = None \<longrightarrow>
      (\<exists>stamp. statusOps (fst (handleStartTraining e s))
           = statusOps s @ [Append (statusEntry stamp (ascii ''Error: Please select a file first''))]
         \<and> trainingStatus (fst (handleStartTraining e s))
           = trainingStatus s @ [statusEntry stamp (ascii ''Error: Please select a file first'')]))
   \<and> (statusOps (fst (handleStartTraining e s)) = statusOps s @ ops \<longrightarrow>
        logAfter ops (trainingStatus s) = trainingStatus (fst (handleStartTraining e s))
        \<and> (0 < n \<and> n \<le> m \<longrightarrow>
             prefix (logAfter (take n ops) (trainingStatus s)) (logAfter (take m ops) (trainingStatus s))))"
proof (cases "selectedFile s")
  case None
  then have h: "handleStartTraining e s = (appendStatus e (ascii ''Error: Please select a file first'') s, Return)"
    by (rule handle_no_file)
  have "prefix (logAfter (take n ops) (trainingStatus s)) (logAfter (take m ops) (trainingStatus s))"
    if "ops = [Append x]" "0 < n" "n \<le> m" for x
    using that by (cases n; cases m) simp_all
  with None h show ?thesis by auto
next
  case (Some f)
  from handle_log_with_file [OF Some, of e] obtain entries where
    o: "statusOps (fst (handleStartTraining e s)) = statusOps s @ Clear # map Append entries"
    and l: "trainingStatus (fst (handleStartTraining e s)) = entries"
    and t: "\<forall>entry \<in> set entries. \<exists>stamp message. entry = statusEntry stamp message"
    by blast
  have "logAfter ops (trainingStatus s) = entries
        \<and> (0 < n \<and> n \<le> m \<longrightarrow>
             prefix (logAfter (take n ops) (trainingStatus s)) (logAfter (take m ops) (trainingStatus s)))"
    if "ops = Clear # map Append entries"
    using that by (auto simp: logAfter_appends logAfter_cleared take_prefix_take)
  with Some o l t show ?thesis by auto
qed

theorem C9_log_cleared_witness:
  "selectedFile (idleState (Some koiFile)) \<noteq> None
   \<and> statusOps (fst (handleStartTraining
         (koiWorld (InsertReturns None) (FetchThrows failedToFetch))
         (idleState (Some koiFile))))
       = statusOps (idleState (Some koiFile)) @ Clear # map Append logUpToRequest
   \<and> (0 :: nat) < 2 \<and> (2 :: nat) \<le> 5
   \<and> logAfter (Clear # map Append logUpToRequest) (trainingStatus (idleState (Some koiFile)))
       = trainingStatus (fst (handleStartTraining
           (koiWorld (InsertReturns None) (FetchThrows failedToFetch))
           (idleState (Some koiFile))))
   \<and> prefix (logAfter (take 2 (Clear # map Append logUpToRequest)) (trainingStatus (idleState (Some koiFile))))
        (logAfter (take 5 (Clear # map Append logUpToRequest)) (trainingStatus (idleState (Some koiFile))))"
proof -
  let ?e = "koiWorld (InsertReturns None) (FetchThrows failedToFetch)"
  have o: "statusOps (fst (handleStartTraining ?e (idleState (Some koiFile))))
       = statusOps (idleState (Some koiFile)) @ Clear # map Append logUpToRequest"
    by (simp add: run_eval)
  have a: "(0 :: nat) < 2 \<and> (2 :: nat) \<le> 5"
    by simp
  note c = C9_log_cleared_then_append_only
             [of "idleState (Some koiFile)" ?e "Clear # map Append logUpToRequest" 2 5]
  from c o have "logAfter (Clear # map Append logUpToRequest) (trainingStatus (idleState (Some koiFile)))
       = trainingStatus (fst (handleStartTraining ?e (idleState (Some koiFile))))"
    by blast
  moreover from c o a
  have "prefix (logAfter (take 2 (Clear # map Append logUpToRequest)) (trainingStatus (idleState (Some koiFile))))
          (logAfter (take 5 (Clear # map Append logUpToRequest)) (trainingStatus (idleState (Some koiFile))))"
    by blast
  moreover have "selectedFile (idleState (Some koiFile)) \<noteq> None"
    by simp
  ultimately show ?thesis using o a by blast
qed

text \<open>
  The claim as stated fails: a submission with no file selected does not clear the log.
  Its only update appends the error entry after the entry that an earlier run left.
\<close>

theorem C9_submission_without_file_keeps_old_log:
  "selectedFile (idleState None) = None
   \<and> statusOps (fst (handleStartTraining
         (koiWorld (InsertReturns None) (FetchThrows failedToFetch)) (idleState None)))
       = [Append (statusEntry noon (ascii ''Error: Please select a file first''))]
   \<and> trainingStatus (fst (handleStartTraining
         (koiWorld (InsertReturns None) (FetchThrows failedToFetch)) (idleState None)))
       = [statusEntry noon (ascii ''Error: Please select a file first''),
          statusEntry noon (ascii ''Error: Please select a file first'')]"
  by (simp add: handle_no_file)

end
